theory Spec2Isabelle
  imports Main "HOL-Library.Word" "HOL-Library.AList"
begin

unbundle bit_operations_syntax

chapter \<open>binance.js: the REST client's request dispatch, as a shallow embedding\<close>

text \<open>
  The development follows \<^verbatim>\<open>src/rest-client.ts\<close> (class \<^verbatim>\<open>RestClient\<close>),
  \<^verbatim>\<open>utils.ts\<close> (\<^verbatim>\<open>getHmac\<close>), \<^verbatim>\<open>errors.ts\<close> and \<^verbatim>\<open>models.ts\<close>.
  JavaScript objects live in an explicit store, because \<^verbatim>\<open>http\<close> writes to objects
  it shares with its caller. Strings are byte strings: a JavaScript string stands for its
  UTF-8 encoding, which is what \<^verbatim>\<open>new Buffer(s)\<close> and percent-encoding work on.
  Numbers are integers (a timestamp, a status code, a limit) that JavaScript prints in
  plain decimal; fractional, very large and non-finite numbers and array-valued request
  parameters are outside the model. Calls of the debug logger \<^verbatim>\<open>log\<close> compute
  nothing and are left out.
\<close>

section \<open>Node's \<^verbatim>\<open>crypto\<close>: HMAC with SHA-256\<close>

text \<open>
  \<^verbatim>\<open>createHmac('sha256', key)\<close> is a function of Node's standard library. It is modelled
  by the algorithms it implements: SHA-256 as in FIPS 180-4 and HMAC as in RFC 2104
  (block size 64 bytes). The round constants are written in decimal.
\<close>

type_synonym byte = "8 word"
type_synonym w32 = "32 word"
type_synonym sha_state = "w32 \<times> w32 \<times> w32 \<times> w32 \<times> w32 \<times> w32 \<times> w32 \<times> w32"

definition sha256_K :: "w32 list" where
  "sha256_K =
    [1116352408, 1899447441, 3049323471, 3921009573, 961987163, 1508970993,
     2453635748, 2870763221, 3624381080, 310598401, 607225278, 1426881987,
     1925078388, 2162078206, 2614888103, 3248222580, 3835390401, 4022224774,
     264347078, 604807628, 770255983, 1249150122, 1555081692, 1996064986,
     2554220882, 2821834349, 2952996808, 3210313671, 3336571891, 3584528711,
     113926993, 338241895, 666307205, 773529912, 1294757372, 1396182291,
     1695183700, 1986661051, 2177026350, 2456956037, 2730485921, 2820302411,
     3259730800, 3345764771, 3516065817, 3600352804, 4094571909, 275423344,
     430227734, 506948616, 659060556, 883997877, 958139571, 1322822218,
     1537002063, 1747873779, 1955562222, 2024104815, 2227730452, 2361852424,
     2428436474, 2756734187, 3204031479, 3329325298]"

definition sha256_init :: sha_state where
  "sha256_init =
    (1779033703, 3144134277, 1013904242, 2773480762,
     1359893119, 2600822924, 528734635, 1541459225)"

definition rotr :: "nat \<Rightarrow> w32 \<Rightarrow> w32" where
  "rotr n x = word_rotr n x"

definition big_sigma0 :: "w32 \<Rightarrow> w32" where
  "big_sigma0 x = rotr 2 x XOR rotr 13 x XOR rotr 22 x"

definition big_sigma1 :: "w32 \<Rightarrow> w32" where
  "big_sigma1 x = rotr 6 x XOR rotr 11 x XOR rotr 25 x"

definition small_sigma0 :: "w32 \<Rightarrow> w32" where
  "small_sigma0 x = rotr 7 x XOR rotr 18 x XOR drop_bit 3 x"

definition small_sigma1 :: "w32 \<Rightarrow> w32" where
  "small_sigma1 x = rotr 17 x XOR rotr 19 x XOR drop_bit 10 x"

definition sha_ch :: "w32 \<Rightarrow> w32 \<Rightarrow> w32 \<Rightarrow> w32" where
  "sha_ch x y z = (x AND y) XOR (NOT x AND z)"

definition sha_maj :: "w32 \<Rightarrow> w32 \<Rightarrow> w32 \<Rightarrow> w32" where
  "sha_maj x y z = (x AND y) XOR (x AND z) XOR (y AND z)"

definition word_of_bytes :: "byte list \<Rightarrow> w32" where
  "word_of_bytes bs = foldl (\<lambda>acc b. push_bit 8 acc OR ucast b) 0 bs"

definition bytes_of_word :: "w32 \<Rightarrow> byte list" where
  "bytes_of_word w =
     [ucast (drop_bit 24 w), ucast (drop_bit 16 w), ucast (drop_bit 8 w), ucast w]"

fun block_words :: "byte list \<Rightarrow> w32 list" where
  "block_words (a # b # c # d # rest) = word_of_bytes [a, b, c, d] # block_words rest"
| "block_words _ = []"

fun blocks64 :: "nat \<Rightarrow> byte list \<Rightarrow> byte list list" where
  "blocks64 0 bs = []"
| "blocks64 (Suc n) bs = take 64 bs # blocks64 n (drop 64 bs)"

definition length_bytes :: "nat \<Rightarrow> byte list" where
  "length_bytes n =
     map (\<lambda>i. ucast (drop_bit (8 * (7 - i)) (of_nat n :: 64 word))) [0..<8]"

definition sha256_pad :: "byte list \<Rightarrow> byte list" where
  "sha256_pad m =
     m @ [128] @ replicate ((119 - length m mod 64) mod 64) 0 @ length_bytes (8 * length m)"

fun schedule :: "nat \<Rightarrow> w32 list \<Rightarrow> w32 list" where
  "schedule 0 ws = ws"
| "schedule (Suc n) ws =
     (let t = length ws
      in schedule n (ws @ [small_sigma1 (ws ! (t - 2)) + ws ! (t - 7)
                           + small_sigma0 (ws ! (t - 15)) + ws ! (t - 16)]))"

definition sha256_round :: "sha_state \<Rightarrow> w32 \<times> w32 \<Rightarrow> sha_state" where
  "sha256_round s kw =
     (case s of (a, b, c, d, e, f, g, h) \<Rightarrow>
        (let t1 = h + big_sigma1 e + sha_ch e f g + fst kw + snd kw;
             t2 = big_sigma0 a + sha_maj a b c
         in (t1 + t2, a, b, c, d + t1, e, f, g)))"

definition add_state :: "sha_state \<Rightarrow> sha_state \<Rightarrow> sha_state" where
  "add_state s s' =
     (case s of (a, b, c, d, e, f, g, h) \<Rightarrow>
        (case s' of (a', b', c', d', e', f', g', h') \<Rightarrow>
           (a + a', b + b', c + c', d + d', e + e', f + f', g + g', h + h')))"

definition compress :: "sha_state \<Rightarrow> byte list \<Rightarrow> sha_state" where
  "compress s block =
     add_state s (foldl sha256_round s (zip sha256_K (schedule 48 (block_words block))))"

definition state_bytes :: "sha_state \<Rightarrow> byte list" where
  "state_bytes s =
     (case s of (a, b, c, d, e, f, g, h) \<Rightarrow>
        concat (map bytes_of_word [a, b, c, d, e, f, g, h]))"

definition sha256 :: "byte list \<Rightarrow> byte list" where
  "sha256 m =
     (let p = sha256_pad m
      in state_bytes (foldl compress sha256_init (blocks64 (length p div 64) p)))"

definition hmac_sha256 :: "byte list \<Rightarrow> byte list \<Rightarrow> byte list" where
  "hmac_sha256 key msg =
     (let k0 = (if 64 < length key then sha256 key else key);
          k = k0 @ replicate (64 - length k0) 0
      in sha256 (map (\<lambda>b. b XOR 92) k @ sha256 (map (\<lambda>b. b XOR 54) k @ msg)))"

definition hex_digit :: "nat \<Rightarrow> char" where
  "hex_digit n = ''0123456789abcdef'' ! (n mod 16)"

definition hex_byte :: "byte \<Rightarrow> string" where
  "hex_byte b = [hex_digit (unat b div 16), hex_digit (unat b mod 16)]"

definition hex_string :: "byte list \<Rightarrow> string" where
  "hex_string bs = concat (map hex_byte bs)"

text \<open>\<^verbatim>\<open>new Buffer(s)\<close>: the bytes of the string, unchanged.\<close>

definition Buffer :: "string \<Rightarrow> byte list" where
  "Buffer s = map of_char s"

text \<open>
  The \<^verbatim>\<open>Hmac\<close> object of Node: the algorithm's name, the key and the data fed so far.
  \<^verbatim>\<open>digest('hex')\<close> is defined for \<^verbatim>\<open>'sha256'\<close>, the one algorithm modelled.
\<close>

record Hmac =
  hmac_algorithm :: string
  hmac_key :: "byte list"
  hmac_data :: "byte list"

definition createHmac :: "string \<Rightarrow> byte list \<Rightarrow> Hmac" where
  "createHmac algorithm key = \<lparr>hmac_algorithm = algorithm, hmac_key = key, hmac_data = []\<rparr>"

definition update :: "Hmac \<Rightarrow> string \<Rightarrow> Hmac" where
  "update hm input = hm\<lparr>hmac_data := hmac_data hm @ Buffer input\<rparr>"

definition digest_hex :: "Hmac \<Rightarrow> string" where
  "digest_hex hm =
     (if hmac_algorithm hm = ''sha256''
      then hex_string (hmac_sha256 (hmac_key hm) (hmac_data hm)) else [])"

section \<open>\<^verbatim>\<open>utils.ts\<close>\<close>

text \<open>
  \<^verbatim>\<open>
  export function getHmac (input: string, apisecret: string) {
    const hmac = createHmac('sha256', new Buffer(apisecret)).update(input).digest('hex')
    return hmac
  }
  \<close>
\<close>

definition getHmac :: "string \<Rightarrow> string \<Rightarrow> string" where
  "getHmac input apisecret =
     digest_hex (update (createHmac ''sha256'' (Buffer apisecret)) input)"

text \<open>
  The signer in the words of the specification: HMAC with SHA-256, key the raw bytes of the
  secret, message the canonical body, rendered as lowercase hexadecimal.
\<close>

definition spec_sign :: "string \<Rightarrow> string \<Rightarrow> string" where
  "spec_sign canonicalBody secret =
     hex_string (hmac_sha256 (map of_char secret) (map of_char canonicalBody))"

definition lowercase_hex :: "char \<Rightarrow> bool" where
  "lowercase_hex c = (c \<in> set ''0123456789abcdef'')"

section \<open>JavaScript values, objects and the object store\<close>

text \<open>
  A value is a primitive, a reference to an object of the store, or a function (only
  \<^verbatim>\<open>validateStatus\<close> is one; it is named by its source text). An object is the list of
  its own enumerable properties in iteration order, with distinct keys. Setting a property
  keeps the position of a key that is present and appends a new key; the keys \<^verbatim>\<open>http\<close>
  sets are never array indices, so appending is the order JavaScript gives them.
\<close>

type_synonym addr = nat

datatype val = Undefined | Null | Bool bool | Num int | Str string | Ref addr | Closure string

type_synonym obj = "(string \<times> val) list"

type_synonym heap = "obj list"

definition get_prop :: "obj \<Rightarrow> string \<Rightarrow> val" where
  "get_prop ob k = (case map_of ob k of None \<Rightarrow> Undefined | Some v \<Rightarrow> v)"

definition set_prop :: "obj \<Rightarrow> string \<Rightarrow> val \<Rightarrow> obj" where
  "set_prop ob k v = AList.update k v ob"

definition delete_prop :: "obj \<Rightarrow> string \<Rightarrow> obj" where
  "delete_prop ob k = AList.delete k ob"

definition has_prop :: "obj \<Rightarrow> string \<Rightarrow> bool" where
  "has_prop ob k = (k \<in> fst ` set ob)"

definition deref :: "heap \<Rightarrow> addr \<Rightarrow> obj" where
  "deref h a = (if a < length h then h ! a else [])"

definition store :: "heap \<Rightarrow> addr \<Rightarrow> obj \<Rightarrow> heap" where
  "store h a ob = h[a := ob]"

definition alloc :: "heap \<Rightarrow> obj \<Rightarrow> addr \<times> heap" where
  "alloc h ob = (length h, h @ [ob])"

text \<open>\<^verbatim>\<open>!v\<close> is \<open>\<not> truthy v\<close>; \<^verbatim>\<open>a || b\<close> is \<open>a\<close> when \<open>truthy a\<close>.\<close>

definition truthy :: "val \<Rightarrow> bool" where
  "truthy v =
     (case v of Undefined \<Rightarrow> False | Null \<Rightarrow> False | Bool b \<Rightarrow> b | Num n \<Rightarrow> n \<noteq> 0
      | Str s \<Rightarrow> s \<noteq> [] | Ref a \<Rightarrow> True | Closure c \<Rightarrow> True)"

text \<open>A client option of type \<^verbatim>\<open>string | undefined\<close>, as a value.\<close>

definition opt_val :: "string option \<Rightarrow> val" where
  "opt_val c = (case c of None \<Rightarrow> Undefined | Some s \<Rightarrow> Str s)"

subsection \<open>Decimal numbers and percent-encoding\<close>

definition digit_char :: "nat \<Rightarrow> char" where
  "digit_char n = ''0123456789'' ! (n mod 10)"

function show_nat :: "nat \<Rightarrow> string" where
  "show_nat n = (if n < 10 then [digit_char n] else show_nat (n div 10) @ [digit_char n])"
  by pat_completeness auto
termination
  by (relation "measure (\<lambda>n. n)") auto

declare show_nat.simps [simp del]

definition show_int :: "int \<Rightarrow> string" where
  "show_int i = (if i < 0 then CHR ''-'' # show_nat (nat (- i)) else show_nat (nat i))"

text \<open>
  \<^verbatim>\<open>Object.assign(target, source)\<close> copies the own enumerable properties of the source
  in order. A string source has its characters under the indices (one byte each here,
  which is the character for ASCII text); \<^verbatim>\<open>undefined\<close>, \<^verbatim>\<open>null\<close>, numbers,
  booleans and functions have none.
\<close>

definition own_props :: "heap \<Rightarrow> val \<Rightarrow> obj" where
  "own_props h v =
     (case v of
        Ref a \<Rightarrow> deref h a
      | Str s \<Rightarrow> zip (map show_nat [0..<length s]) (map (\<lambda>c. Str [c]) s)
      | _ \<Rightarrow> [])"

definition Object_assign :: "obj \<Rightarrow> obj \<Rightarrow> obj" where
  "Object_assign target source = foldl (\<lambda>ob kv. set_prop ob (fst kv) (snd kv)) target source"

text \<open>
  \<^verbatim>\<open>querystring.stringify\<close> of Node, on objects without array values: the pairs
  \<^verbatim>\<open>escape(key)=escape(stringifyPrimitive(value))\<close> joined by \<^verbatim>\<open>&\<close>. A string, a finite
  number and a boolean are rendered; every other value is the empty string.
  \<^verbatim>\<open>querystring.escape\<close> keeps letters, digits and \<^verbatim>\<open>-_.!~*'()\<close> and writes every
  other byte as \<^verbatim>\<open>%XX\<close> in uppercase.
\<close>

definition stringifyPrimitive :: "val \<Rightarrow> string" where
  "stringifyPrimitive v =
     (case v of Str s \<Rightarrow> s | Num n \<Rightarrow> show_int n
      | Bool b \<Rightarrow> (if b then ''true'' else ''false'') | _ \<Rightarrow> [])"

definition unreserved :: "char \<Rightarrow> bool" where
  "unreserved c =
     (c \<in> set ''ABCDEFGHIJKLMNOPQRSTUVWXYZabcdefghijklmnopqrstuvwxyz0123456789-_.!~*()''
      \<or> c = CHR 0x27)"

definition upper_hex_digit :: "nat \<Rightarrow> char" where
  "upper_hex_digit n = ''0123456789ABCDEF'' ! (n mod 16)"

definition percent :: "char \<Rightarrow> string" where
  "percent c =
     [CHR ''%'', upper_hex_digit ((of_char c :: nat) div 16), upper_hex_digit (of_char c :: nat)]"

definition escape :: "string \<Rightarrow> string" where
  "escape s = concat (map (\<lambda>c. if unreserved c then [c] else percent c) s)"

fun join :: "string \<Rightarrow> string list \<Rightarrow> string" where
  "join sep [] = []"
| "join sep [x] = x"
| "join sep (x # y # ys) = x @ sep @ join sep (y # ys)"

definition qstringify :: "obj \<Rightarrow> string" where
  "qstringify ob =
     join ''&'' (map (\<lambda>kv. escape (fst kv) @ ''='' @ escape (stringifyPrimitive (snd kv))) ob)"

section \<open>\<^verbatim>\<open>models.ts\<close> and \<^verbatim>\<open>errors.ts\<close>\<close>

datatype http_method = GET | PUT | POST | PATCH | OPTIONS | DELETE

datatype EndpointSecurity = NONE | API_KEY | SIGNED

record Endpoint =
  url :: string
  method' :: "http_method option"
  security :: EndpointSecurity

record RestClientOptions =
  apikey :: "string option"
  apisecret :: "string option"
  axiosOptions :: "obj option"

definition method_name :: "http_method \<Rightarrow> string" where
  "method_name m =
     (case m of GET \<Rightarrow> ''GET'' | PUT \<Rightarrow> ''PUT'' | POST \<Rightarrow> ''POST'' | PATCH \<Rightarrow> ''PATCH''
      | OPTIONS \<Rightarrow> ''OPTIONS'' | DELETE \<Rightarrow> ''DELETE'')"

definition security_name :: "EndpointSecurity \<Rightarrow> string" where
  "security_name t = (case t of NONE \<Rightarrow> ''NONE'' | API_KEY \<Rightarrow> ''API-KEY'' | SIGNED \<Rightarrow> ''SIGNED'')"

text \<open>A response body is parsed JSON; \<^verbatim>\<open>statusText\<close> may be \<^verbatim>\<open>null\<close>.\<close>

datatype json =
  JUndefined | JNull | JBool bool | JNum int | JStr string
  | JArr "json list" | JObj "(string \<times> json) list"

record AxiosResponse =
  status :: int
  statusText :: json
  data :: json

text \<open>What the transport throws: an error object with its name, message and stack.\<close>

record Thrown =
  thrown_name :: string
  thrown_message :: string
  thrown_stack :: "string option"

text \<open>
  The error classes of \<^verbatim>\<open>errors.ts\<close> with the fields their constructors set:
  \<^verbatim>\<open>HttpError(msg)\<close> has the message \<^verbatim>\<open>String(msg)\<close> and \<^verbatim>\<open>msg.stack\<close>; the three
  request errors have \<^verbatim>\<open>response\<close>, \<^verbatim>\<open>statusText\<close> and \<^verbatim>\<open>statusCode\<close>.
  \<open>TypeError\<close> is the error of the JavaScript runtime.
\<close>

datatype error =
  MissingCredentialsError string
  | HttpError string "string option"
  | MalformedRequestError json json int
  | RequestResultUnknownError json json int
  | InternalRequestError json json int
  | TypeError

text \<open>\<^verbatim>\<open>Error.prototype.toString\<close>, which \<^verbatim>\<open>super(msg)\<close> applies to an error object.\<close>

definition error_toString :: "Thrown \<Rightarrow> string" where
  "error_toString e =
     (if thrown_name e = [] then thrown_message e
      else if thrown_message e = [] then thrown_name e
      else thrown_name e @ '': '' @ thrown_message e)"

section \<open>\<^verbatim>\<open>rest-client.ts\<close>: the constructor\<close>

text \<open>
  \<^verbatim>\<open>
  const AXIOS_DEFAULTS: AxiosRequestConfig = { timeout: 15000 }

  constructor (options: Models.RestClientOptions = {}) {
    this.options = options
    this.axios = axios.create(Object.assign(AXIOS_DEFAULTS, options.axiosOptions || {}))
    ...
  }
  \<close>
  \<^verbatim>\<open>AXIOS_DEFAULTS\<close> is one object of the module, shared by every construction, so the
  constructor takes its current content and returns its content afterwards.
  \<^verbatim>\<open>Object.assign\<close> writes to its first argument and returns it. \<^verbatim>\<open>axios.create\<close> is
  the library's: the instance keeps a copy of the configuration it is given (the library's
  own defaults are left out). The two interceptors only log.
\<close>

record RestClient =
  options :: RestClientOptions
  axios :: obj

definition AXIOS_DEFAULTS :: obj where
  "AXIOS_DEFAULTS = [(''timeout'', Num 15000)]"

definition axios_create :: "obj \<Rightarrow> obj" where
  "axios_create config = config"

definition default_options :: RestClientOptions where
  "default_options = \<lparr>apikey = None, apisecret = None, axiosOptions = None\<rparr>"

definition RestClient_constructor :: "obj \<Rightarrow> RestClientOptions \<Rightarrow> RestClient \<times> obj" where
  "RestClient_constructor defaults opts =
     (let merged = Object_assign defaults (case axiosOptions opts of None \<Rightarrow> [] | Some a \<Rightarrow> a)
      in (\<lparr>options = opts, axios = axios_create merged\<rparr>, merged))"

section \<open>\<^verbatim>\<open>rest-client.ts\<close>: \<^verbatim>\<open>http\<close>\<close>

text \<open>
  The transport is \<^verbatim>\<open>this.axios.request(requestOptions)\<close>: given the instance's
  configuration and the request options object (read through the store), it throws or
  returns a response. It is a parameter of the model. A dispatch returns its outcome, the
  store afterwards and the transport calls it made, each with the store as it was then.
\<close>

type_synonym transport = "obj \<Rightarrow> heap \<Rightarrow> addr \<Rightarrow> Thrown + AxiosResponse"

type_synonym call = "heap \<times> addr"

text \<open>
  Modelled from the spec: \<^verbatim>\<open>url-join\<close> is a package this repository imports; step 4 of the
  dispatcher says it joins the base path and the endpoint's path with exactly one slash.
\<close>

definition url_join :: "string \<Rightarrow> string \<Rightarrow> string" where
  "url_join base path =
     rev (dropWhile (\<lambda>c. c = CHR ''/'') (rev base)) @ ''/'' @ dropWhile (\<lambda>c. c = CHR ''/'') path"

text \<open>
  Lines 50 to 64:
  \<^verbatim>\<open>
  async http (endpoint: Models.Endpoint, options: AxiosRequestConfig = {}) {
    const httpMethod = endpoint.method || 'GET'
    const headers: Models.Headers = options.headers || {}
    const inputs = httpMethod === 'GET' ? Object.assign({}, options.params)
                                        : Object.assign({}, options.data)
    delete options.data
    delete options.params
  \<close>
  \<open>optionsArg = None\<close> is a call without the second argument.
\<close>

record staged =
  sg_options :: addr
  sg_method :: http_method
  sg_headers :: val
  sg_inputs :: addr

definition stage :: "Endpoint \<Rightarrow> addr option \<Rightarrow> heap \<Rightarrow> staged \<times> heap" where
  "stage endpoint optionsArg h0 =
     (let (opts, h1) = (case optionsArg of None \<Rightarrow> alloc h0 [] | Some a \<Rightarrow> (a, h0));
          httpMethod = (case method' endpoint of None \<Rightarrow> GET | Some m \<Rightarrow> m);
          hv = get_prop (deref h1 opts) ''headers'';
          (headers, h2) = (if truthy hv then (hv, h1)
                           else (let (a, h) = alloc h1 [] in (Ref a, h)));
          source = get_prop (deref h2 opts) (if httpMethod = GET then ''params'' else ''data'');
          (inputs, h3) = alloc h2 (Object_assign [] (own_props h2 source));
          h4 = store h3 opts (delete_prop (delete_prop (deref h3 opts) ''data'') ''params'')
      in (\<lparr>sg_options = opts, sg_method = httpMethod, sg_headers = headers,
           sg_inputs = inputs\<rparr>, h4))"

text \<open>
  Lines 67 to 75:
  \<^verbatim>\<open>
    if (endpoint.security !== 'NONE') {
      if (!this.options.apikey) {
        throw new Errors.MissingCredentialsError(
          `${endpoint.security} HTTP endpoints require opts.apikey to be provided`)
      }
      headers['X-MBX-APIKEY'] = this.options.apikey
    }
  \<close>
  The module is in strict mode: the assignment throws a \<open>TypeError\<close> when \<^verbatim>\<open>headers\<close> is a
  primitive (a truthy \<^verbatim>\<open>options.headers\<close> that is no object). \<^verbatim>\<open>headers\<close> is declared
  \<^verbatim>\<open>Models.Headers\<close>, an object; a function in its place is not modelled and is treated
  like a primitive.
\<close>

definition missing_message :: "Endpoint \<Rightarrow> string \<Rightarrow> string" where
  "missing_message endpoint field =
     security_name (security endpoint) @ '' HTTP endpoints require opts.'' @ field
       @ '' to be provided''"

definition require_apikey ::
  "RestClient \<Rightarrow> Endpoint \<Rightarrow> staged \<Rightarrow> heap \<Rightarrow> error option \<times> heap" where
  "require_apikey client endpoint st h =
     (if security endpoint \<noteq> NONE then
        (if \<not> truthy (opt_val (apikey (options client))) then
           (Some (MissingCredentialsError (missing_message endpoint ''apikey'')), h)
         else
           (case sg_headers st of
              Ref a \<Rightarrow>
                (None, store h a (set_prop (deref h a) ''X-MBX-APIKEY''
                                    (opt_val (apikey (options client)))))
            | _ \<Rightarrow> (Some TypeError, h)))
      else (None, h))"

text \<open>
  Lines 78 to 90:
  \<^verbatim>\<open>
    if (endpoint.security === 'SIGNED') {
      if (!this.options.apisecret) {
        throw new Errors.MissingCredentialsError(
          `${endpoint.security} HTTP endpoints require opts.apisecret to be provided`)
      }
      inputs.timestamp = Date.now()
      inputs.signature = utils.getHmac(qstringify(inputs), this.options.apisecret)
    }
  \<close>
  \<open>now\<close> is what \<^verbatim>\<open>Date.now()\<close> returns. \<open>signed_string\<close> is the argument \<^verbatim>\<open>getHmac\<close>
  is given: the serialisation of the working mapping once the timestamp is in.
\<close>

definition signed_string :: "int \<Rightarrow> obj \<Rightarrow> string" where
  "signed_string now inputs = qstringify (set_prop inputs ''timestamp'' (Num now))"

definition sign_inputs ::
  "int \<Rightarrow> RestClient \<Rightarrow> Endpoint \<Rightarrow> staged \<Rightarrow> heap \<Rightarrow> error option \<times> heap" where
  "sign_inputs now client endpoint st h =
     (if security endpoint = SIGNED then
        (case apisecret (options client) of
           None \<Rightarrow> (Some (MissingCredentialsError (missing_message endpoint ''apisecret'')), h)
         | Some secret \<Rightarrow>
             (if secret = [] then
                (Some (MissingCredentialsError (missing_message endpoint ''apisecret'')), h)
              else
                (let inputs = deref h (sg_inputs st);
                     h1 = store h (sg_inputs st) (set_prop inputs ''timestamp'' (Num now));
                     signature = getHmac (signed_string now inputs) secret;
                     h2 = store h1 (sg_inputs st)
                            (set_prop (deref h1 (sg_inputs st)) ''signature'' (Str signature))
                 in (None, h2))))
      else (None, h))"

text \<open>
  Lines 94 to 121:
  \<^verbatim>\<open>
    const fullUrl = url('https://api.binance.com/api', endpoint.url)
    const requestOptions = Object.assign(options, {
      url: fullUrl, headers: headers, method: httpMethod,
      validateStatus: () => { return true }
    })
    if (httpMethod === 'GET') {
      requestOptions.params = inputs
    } else {
      requestOptions.data = qstringify(inputs)
    }
    let result: AxiosResponse
    try {
      result = await this.axios.request(requestOptions)
    } catch (e) {
      throw new Errors.HttpError(e)
    }
  \<close>
  \<^verbatim>\<open>requestOptions\<close> is the object \<^verbatim>\<open>options\<close> itself.
\<close>

definition send ::
  "transport \<Rightarrow> RestClient \<Rightarrow> Endpoint \<Rightarrow> staged \<Rightarrow> heap
     \<Rightarrow> (error + AxiosResponse) \<times> heap \<times> call list" where
  "send transport client endpoint st h =
     (let fullUrl = url_join ''https://api.binance.com/api'' (url endpoint);
          requestOptions = sg_options st;
          h1 = store h requestOptions
                 (Object_assign (deref h requestOptions)
                    [(''url'', Str fullUrl), (''headers'', sg_headers st),
                     (''method'', Str (method_name (sg_method st))),
                     (''validateStatus'', Closure ''() => { return true }'')]);
          h2 = (if sg_method st = GET then
                  store h1 requestOptions
                    (set_prop (deref h1 requestOptions) ''params'' (Ref (sg_inputs st)))
                else
                  store h1 requestOptions
                    (set_prop (deref h1 requestOptions) ''data''
                       (Str (qstringify (deref h1 (sg_inputs st))))))
      in (case transport (axios client) h2 requestOptions of
            Inl e \<Rightarrow> (Inl (HttpError (error_toString e) (thrown_stack e)), h2,
                      [(h2, requestOptions)])
          | Inr result \<Rightarrow> (Inr result, h2, [(h2, requestOptions)])))"

text \<open>
  Lines 123 to 131:
  \<^verbatim>\<open>
    if (result.status >= 400 && result.status <= 499) {
      throw new Errors.MalformedRequestError(result.data, result.statusText, result.status)
    } else if (result.status === 504) {
      throw new Errors.RequestResultUnknownError(result.data, result.statusText, result.status)
    } else if (result.status >= 500 && result.status <= 599) {
      throw new Errors.InternalRequestError(result.data, result.statusText, result.status)
    } else  {
      return result
    }
  \<close>
\<close>

definition classify :: "AxiosResponse \<Rightarrow> error + AxiosResponse" where
  "classify result =
     (if 400 \<le> status result \<and> status result \<le> 499 then
        Inl (MalformedRequestError (data result) (statusText result) (status result))
      else if status result = 504 then
        Inl (RequestResultUnknownError (data result) (statusText result) (status result))
      else if 500 \<le> status result \<and> status result \<le> 599 then
        Inl (InternalRequestError (data result) (statusText result) (status result))
      else Inr result)"

definition http ::
  "transport \<Rightarrow> int \<Rightarrow> RestClient \<Rightarrow> Endpoint \<Rightarrow> addr option \<Rightarrow> heap
     \<Rightarrow> (error + AxiosResponse) \<times> heap \<times> call list" where
  "http transport now client endpoint optionsArg h0 =
     (let (st, h1) = stage endpoint optionsArg h0
      in case require_apikey client endpoint st h1 of
           (Some e, h2) \<Rightarrow> (Inl e, h2, [])
         | (None, h2) \<Rightarrow>
             (case sign_inputs now client endpoint st h2 of
                (Some e, h3) \<Rightarrow> (Inl e, h3, [])
              | (None, h3) \<Rightarrow>
                  (case send transport client endpoint st h3 of
                     (Inl e, h4, calls) \<Rightarrow> (Inl e, h4, calls)
                   | (Inr result, h4, calls) \<Rightarrow> (classify result, h4, calls))))"

section \<open>\<^verbatim>\<open>rest-client.ts\<close>: the endpoints and their methods\<close>

definition ENDPOINTS :: "(string \<times> Endpoint) list" where
  "ENDPOINTS =
     [(''PING'', \<lparr>url = ''/v1/ping'', method' = None, security = NONE\<rparr>),
      (''TIME'', \<lparr>url = ''/v1/time'', method' = None, security = NONE\<rparr>),
      (''ALLPRICES'', \<lparr>url = ''/v1/ticker/allPrices'', method' = None, security = NONE\<rparr>),
      (''ORDERBOOK'', \<lparr>url = ''/v1/depth'', method' = None, security = NONE\<rparr>),
      (''ORDER'', \<lparr>url = ''/v3/order'', method' = Some POST, security = SIGNED\<rparr>),
      (''OPENORDERS'', \<lparr>url = ''/v3/openOrders'', method' = None, security = SIGNED\<rparr>),
      (''ALLORDERS'', \<lparr>url = ''/v3/allOrders'', method' = None, security = SIGNED\<rparr>),
      (''ACCOUNT'', \<lparr>url = ''/v3/account'', method' = None, security = SIGNED\<rparr>)]"

definition ORDERBOOK :: Endpoint where
  "ORDERBOOK = \<lparr>url = ''/v1/depth'', method' = None, security = NONE\<rparr>"

definition ORDER :: Endpoint where
  "ORDER = \<lparr>url = ''/v3/order'', method' = Some POST, security = SIGNED\<rparr>"

definition ALLORDERS :: Endpoint where
  "ALLORDERS = \<lparr>url = ''/v3/allOrders'', method' = None, security = SIGNED\<rparr>"

text \<open>
  Reading parsed JSON as JavaScript does: a property of \<^verbatim>\<open>undefined\<close> or \<^verbatim>\<open>null\<close> is a
  \<open>TypeError\<close>, a missing property is \<^verbatim>\<open>undefined\<close>, and \<^verbatim>\<open>x.map(f)\<close> is a \<open>TypeError\<close>
  unless \<^verbatim>\<open>x\<close> is an array. An exception in the callback ends the \<^verbatim>\<open>map\<close>.
\<close>

definition js_member :: "json \<Rightarrow> string \<Rightarrow> error + json" where
  "js_member x k =
     (case x of
        JUndefined \<Rightarrow> Inl TypeError
      | JNull \<Rightarrow> Inl TypeError
      | JObj ps \<Rightarrow> Inr (case map_of ps k of None \<Rightarrow> JUndefined | Some v \<Rightarrow> v)
      | _ \<Rightarrow> Inr JUndefined)"

definition js_index :: "json \<Rightarrow> nat \<Rightarrow> error + json" where
  "js_index x i =
     (case x of
        JUndefined \<Rightarrow> Inl TypeError
      | JNull \<Rightarrow> Inl TypeError
      | JArr xs \<Rightarrow> Inr (if i < length xs then xs ! i else JUndefined)
      | JStr s \<Rightarrow> Inr (if i < length s then JStr [s ! i] else JUndefined)
      | JObj ps \<Rightarrow> Inr (case map_of ps (show_nat i) of None \<Rightarrow> JUndefined | Some v \<Rightarrow> v)
      | _ \<Rightarrow> Inr JUndefined)"

fun collect :: "(error + 'a) list \<Rightarrow> error + 'a list" where
  "collect [] = Inr []"
| "collect (Inl e # rs) = Inl e"
| "collect (Inr x # rs) = (case collect rs of Inl e \<Rightarrow> Inl e | Inr xs \<Rightarrow> Inr (x # xs))"

definition js_map :: "(json \<Rightarrow> error + 'a) \<Rightarrow> json \<Rightarrow> error + 'a list" where
  "js_map f x = (case x of JArr xs \<Rightarrow> collect (map f xs) | _ \<Rightarrow> Inl TypeError)"

record OrderBookEntry =
  price :: json
  quantity :: json

record OrderBook =
  lastUpdateId :: json
  bids :: "OrderBookEntry list"
  asks :: "OrderBookEntry list"

text \<open>
  \<^verbatim>\<open>
  async getOrderBook (symbol: string, limit?: number) {
    const ret = await this.http(ENDPOINTS.ORDERBOOK, { params: { symbol, limit } })
    const response = ret.data as Models.RestApiResponses.OrderBookRaw
    return {
      lastUpdateId: response.lastUpdateId,
      bids: response.bids.map(entry => { return { price: entry[0], quantity: entry[1] } }),
      asks: response.asks.map(entry => { return { price: entry[0], quantity: entry[1] } })
    }
  }
  \<close>
\<close>

definition to_entry :: "json \<Rightarrow> error + OrderBookEntry" where
  "to_entry entry =
     (case js_index entry 0 of
        Inl e \<Rightarrow> Inl e
      | Inr p \<Rightarrow>
          (case js_index entry 1 of
             Inl e \<Rightarrow> Inl e
           | Inr q \<Rightarrow> Inr \<lparr>price = p, quantity = q\<rparr>))"

definition reshape :: "json \<Rightarrow> error + OrderBook" where
  "reshape response =
     (case js_member response ''lastUpdateId'' of
        Inl e \<Rightarrow> Inl e
      | Inr u \<Rightarrow>
          (case js_member response ''bids'' of
             Inl e \<Rightarrow> Inl e
           | Inr bs \<Rightarrow>
               (case js_map to_entry bs of
                  Inl e \<Rightarrow> Inl e
                | Inr bids' \<Rightarrow>
                    (case js_member response ''asks'' of
                       Inl e \<Rightarrow> Inl e
                     | Inr as \<Rightarrow>
                         (case js_map to_entry as of
                            Inl e \<Rightarrow> Inl e
                          | Inr asks' \<Rightarrow>
                              Inr \<lparr>lastUpdateId = u, bids = bids', asks = asks'\<rparr>)))))"

definition getOrderBook ::
  "transport \<Rightarrow> int \<Rightarrow> RestClient \<Rightarrow> string \<Rightarrow> int option \<Rightarrow> heap
     \<Rightarrow> (error + OrderBook) \<times> heap \<times> call list" where
  "getOrderBook transport now client symbol limit h =
     (let (p, h1) = alloc h [(''symbol'', Str symbol),
                              (''limit'', case limit of None \<Rightarrow> Undefined | Some n \<Rightarrow> Num n)];
          (opts, h2) = alloc h1 [(''params'', Ref p)]
      in case http transport now client ORDERBOOK (Some opts) h2 of
           (Inl e, h3, calls) \<Rightarrow> (Inl e, h3, calls)
         | (Inr ret, h3, calls) \<Rightarrow> (reshape (data ret), h3, calls))"

text \<open>
  \<^verbatim>\<open>
  async order (data: Models.RestApiParams.NewOrder) {
    const ret = await this.http(ENDPOINTS.ORDER, { data })
    return ret.data as Models.RestApiResponses.NewOrder
  }
  \<close>
  \<open>d\<close> is the address of the caller's \<^verbatim>\<open>data\<close> object.
\<close>

definition order ::
  "transport \<Rightarrow> int \<Rightarrow> RestClient \<Rightarrow> addr \<Rightarrow> heap \<Rightarrow> (error + json) \<times> heap \<times> call list" where
  "order transport now client d h =
     (let (opts, h1) = alloc h [(''data'', Ref d)]
      in case http transport now client ORDER (Some opts) h1 of
           (Inl e, h2, calls) \<Rightarrow> (Inl e, h2, calls)
         | (Inr ret, h2, calls) \<Rightarrow> (Inr (data ret), h2, calls))"

section \<open>What a request carries\<close>

text \<open>
  Reading a transport call: the headers object and the parameters the request options
  point to, at the time of the call. For \<^verbatim>\<open>GET\<close> the parameters are the object under
  \<^verbatim>\<open>params\<close>; otherwise the body is the string under \<^verbatim>\<open>data\<close>.
\<close>

definition sent_headers :: "call \<Rightarrow> obj" where
  "sent_headers c =
     (case get_prop (deref (fst c) (snd c)) ''headers'' of Ref a \<Rightarrow> deref (fst c) a | _ \<Rightarrow> [])"

definition sent_params :: "call \<Rightarrow> obj" where
  "sent_params c =
     (case get_prop (deref (fst c) (snd c)) ''params'' of Ref a \<Rightarrow> deref (fst c) a | _ \<Rightarrow> [])"

definition sent_data :: "call \<Rightarrow> val" where
  "sent_data c = get_prop (deref (fst c) (snd c)) ''data''"

text \<open>
  In the words of the specification, a signed request has a \<^verbatim>\<open>signature\<close> whose value
  equals the HMAC-SHA256, under the secret, of the exact transmitted canonical parameters:
  on the transmitted pairs, the \<^verbatim>\<open>signature\<close> field is the digest of the serialisation
  of all the other transmitted fields.
\<close>

definition signature_verifies :: "string \<Rightarrow> obj \<Rightarrow> bool" where
  "signature_verifies secret ps =
     (get_prop ps ''signature'' = Str (getHmac (qstringify (delete_prop ps ''signature'')) secret))"

text \<open>
  The caller's side of a dispatch. \<open>caller_value h optionsArg k\<close> is the property \<open>k\<close> of
  the options argument as the caller passes it (a call without the argument has none).
  \<open>allocated\<close> says a reference points into the store, as every JavaScript reference
  does. A call is well formed when the options argument is an object of the store and its
  \<^verbatim>\<open>headers\<close>, \<^verbatim>\<open>params\<close> and \<^verbatim>\<open>data\<close> are allocated; \<open>object_or_falsy\<close> is what
  \<^verbatim>\<open>headers\<close> has to be for the API-key header to be writable.
\<close>

definition caller_value :: "heap \<Rightarrow> addr option \<Rightarrow> string \<Rightarrow> val" where
  "caller_value h optionsArg k =
     (case optionsArg of None \<Rightarrow> Undefined | Some a \<Rightarrow> get_prop (deref h a) k)"

definition caller_options :: "heap \<Rightarrow> addr option \<Rightarrow> obj" where
  "caller_options h optionsArg = (case optionsArg of None \<Rightarrow> [] | Some a \<Rightarrow> deref h a)"

definition allocated :: "heap \<Rightarrow> val \<Rightarrow> bool" where
  "allocated h v = (case v of Ref a \<Rightarrow> a < length h | _ \<Rightarrow> True)"

definition object_or_falsy :: "val \<Rightarrow> bool" where
  "object_or_falsy v = (case v of Ref a \<Rightarrow> True | _ \<Rightarrow> \<not> truthy v)"

definition well_formed_call :: "heap \<Rightarrow> addr option \<Rightarrow> bool" where
  "well_formed_call h optionsArg =
     ((case optionsArg of None \<Rightarrow> True | Some a \<Rightarrow> a < length h)
      \<and> allocated h (caller_value h optionsArg ''headers'')
      \<and> allocated h (caller_value h optionsArg ''params'')
      \<and> allocated h (caller_value h optionsArg ''data''))"

text \<open>The method of a dispatch, and the caller's parameter value it stages.\<close>

definition method_of :: "Endpoint \<Rightarrow> http_method" where
  "method_of endpoint = (case method' endpoint of None \<Rightarrow> GET | Some m \<Rightarrow> m)"

definition caller_parameters :: "Endpoint \<Rightarrow> heap \<Rightarrow> addr option \<Rightarrow> obj" where
  "caller_parameters endpoint h optionsArg =
     own_props h (caller_value h optionsArg
                    (if method_of endpoint = GET then ''params'' else ''data''))"

definition caller_headers :: "heap \<Rightarrow> addr option \<Rightarrow> obj" where
  "caller_headers h optionsArg =
     (case caller_value h optionsArg ''headers'' of Ref a \<Rightarrow> deref h a | _ \<Rightarrow> [])"

section \<open>Objects, the store and strings: basic facts\<close>

lemma get_prop_set_prop: "get_prop (set_prop ob k v) k' = (if k' = k then v else get_prop ob k')"
  by (simp add: get_prop_def set_prop_def update_conv')

lemma get_prop_delete_prop:
  "get_prop (delete_prop ob k) k' = (if k' = k then Undefined else get_prop ob k')"
  by (simp add: get_prop_def delete_prop_def delete_conv')

lemma set_prop_fresh: "\<not> has_prop ob k \<Longrightarrow> set_prop ob k v = ob @ [(k, v)]"
  by (induction ob) (auto simp: has_prop_def set_prop_def)

lemma distinct_set_prop: "distinct (map fst ob) \<Longrightarrow> distinct (map fst (set_prop ob k v))"
  by (simp add: set_prop_def distinct_update)

lemma Object_assign_Nil: "Object_assign t [] = t"
  by (simp add: Object_assign_def)

lemma Object_assign_Cons: "Object_assign t ((k, v) # s) = Object_assign (set_prop t k v) s"
  by (simp add: Object_assign_def)

lemma map_of_set_prop: "map_of (set_prop ob k v) = (map_of ob)(k \<mapsto> v)"
  by (simp add: set_prop_def update_conv')

lemma map_of_Object_assign: "map_of (Object_assign t s) = map_of t ++ map_of (rev s)"
proof (induction s arbitrary: t)
  case Nil
  then show ?case by (simp add: Object_assign_Nil)
next
  case (Cons kv s)
  obtain k v where kv: "kv = (k, v)" by (cases kv)
  have "map_of (Object_assign t (kv # s)) = (map_of t)(k \<mapsto> v) ++ map_of (rev s)"
    by (simp only: kv Object_assign_Cons Cons.IH map_of_set_prop)
  also have "\<dots> = map_of t ++ map_of (rev (kv # s))"
    by (auto simp: kv fun_eq_iff map_add_def split: option.splits)
  finally show ?case .
qed

lemma Object_assign_append:
  "distinct (map fst s) \<Longrightarrow> fst ` set t \<inter> fst ` set s = {} \<Longrightarrow> Object_assign t s = t @ s"
proof (induction s arbitrary: t)
  case Nil
  then show ?case by (simp add: Object_assign_Nil)
next
  case (Cons kv s)
  obtain k v where kv: "kv = (k, v)" by (cases kv)
  have fresh: "\<not> has_prop t k"
    using Cons.prems(2) by (auto simp: kv has_prop_def)
  have "Object_assign t (kv # s) = Object_assign (t @ [(k, v)]) s"
    by (simp add: kv Object_assign_Cons set_prop_fresh fresh)
  also have "\<dots> = (t @ [(k, v)]) @ s"
    using Cons.prems by (intro Cons.IH) (auto simp: kv)
  finally show ?case by (simp add: kv)
qed

lemma Object_assign_copy: "distinct (map fst s) \<Longrightarrow> Object_assign [] s = s"
  using Object_assign_append [of s "[]"] by simp

lemma has_prop_Object_assign: "has_prop (Object_assign t s) k = (has_prop t k \<or> has_prop s k)"
proof -
  have "dom (map_of (Object_assign t s)) = dom (map_of t) \<union> dom (map_of (rev s))"
    by (simp add: map_of_Object_assign Un_commute)
  then show ?thesis
    by (simp add: has_prop_def dom_map_of_conv_image_fst set_eq_iff)
qed

lemma distinct_Object_assign:
  "distinct (map fst t) \<Longrightarrow> distinct (map fst (Object_assign t s))"
proof (induction s arbitrary: t)
  case Nil
  then show ?case by (simp add: Object_assign_Nil)
next
  case (Cons kv s)
  then show ?case by (cases kv) (simp add: Object_assign_Cons distinct_set_prop)
qed


lemma has_prop_set_prop: "has_prop (set_prop ob k v) k' = (k' = k \<or> has_prop ob k')"
  by (auto simp: has_prop_def set_prop_def dom_update image_iff)



lemma deref_store: "deref (store h a ob) b = (if b = a \<and> a < length h then ob else deref h b)"
  by (simp add: deref_def store_def)

lemma length_store [simp]: "length (store h a ob) = length h"
  by (simp add: store_def)

lemma deref_append_old: "a < length h \<Longrightarrow> deref (h @ hs) a = deref h a"
  by (simp add: deref_def nth_append)

lemma deref_append_new: "deref (h @ [ob]) (length h) = ob"
  by (simp add: deref_def)

lemma join_snoc: "join sep (xs @ [x]) = (if xs = [] then x else join sep xs @ sep @ x)"
  by (induction sep xs rule: join.induct) auto

lemma qstringify_snoc:
  "ob \<noteq> [] \<Longrightarrow> qstringify (ob @ [(k, v)]) =
     qstringify ob @ ''&'' @ escape k @ ''='' @ escape (stringifyPrimitive v)"
  by (simp add: qstringify_def join_snoc)

lemma hex_digit_lowercase: "lowercase_hex (hex_digit n)"
  unfolding hex_digit_def lowercase_hex_def by (rule nth_mem) simp

lemma lowercase_hex_unreserved: "lowercase_hex c \<Longrightarrow> unreserved c"
  by (auto simp: lowercase_hex_def unreserved_def)

lemma hex_string_lowercase: "list_all lowercase_hex (hex_string bs)"
  by (induction bs) (simp_all add: hex_string_def hex_byte_def hex_digit_lowercase)

lemma length_hex_string: "length (hex_string bs) = 2 * length bs"
  by (induction bs) (simp_all add: hex_string_def hex_byte_def)

lemma length_state_bytes: "length (state_bytes s) = 32"
  by (simp add: state_bytes_def bytes_of_word_def split: prod.splits)

lemma length_sha256: "length (sha256 m) = 32"
  by (simp add: sha256_def Let_def length_state_bytes)

lemma length_hmac_sha256: "length (hmac_sha256 key msg) = 32"
  by (simp add: hmac_sha256_def Let_def length_sha256)

lemma getHmac_eq: "getHmac input secret = hex_string (hmac_sha256 (Buffer secret) (Buffer input))"
  by (simp add: getHmac_def digest_hex_def update_def createHmac_def)

lemma length_getHmac: "length (getHmac input secret) = 64"
  by (simp add: getHmac_eq length_hex_string length_hmac_sha256)

lemma escape_unreserved: "list_all unreserved s \<Longrightarrow> escape s = s"
  by (induction s) (simp_all add: escape_def)

lemma escape_getHmac: "escape (getHmac input secret) = getHmac input secret"
proof (rule escape_unreserved)
  have "list_all lowercase_hex (getHmac input secret)"
    by (simp add: getHmac_eq hex_string_lowercase)
  then show "list_all unreserved (getHmac input secret)"
    by (simp add: list_all_iff lowercase_hex_unreserved)
qed

lemma get_prop_Object_assign:
  "get_prop (Object_assign t s) k =
     (case map_of (rev s) k of Some v \<Rightarrow> v | None \<Rightarrow> get_prop t k)"
  by (simp add: get_prop_def map_of_Object_assign map_add_def split: option.splits)

section \<open>Status classification and the shape of a dispatch\<close>

lemma ENDPOINTS_lookup:
  "map_of ENDPOINTS ''ORDERBOOK'' = Some ORDERBOOK"
  "map_of ENDPOINTS ''ORDER'' = Some ORDER"
  "map_of ENDPOINTS ''ALLORDERS'' = Some ALLORDERS"
  by (simp_all add: ENDPOINTS_def ORDERBOOK_def ORDER_def ALLORDERS_def)

lemma classify_cases:
  "classify r =
     (if 400 \<le> status r \<and> status r \<le> 499 then
        Inl (MalformedRequestError (data r) (statusText r) (status r))
      else if status r = 504 then
        Inl (RequestResultUnknownError (data r) (statusText r) (status r))
      else if 500 \<le> status r \<and> status r \<le> 599 then
        Inl (InternalRequestError (data r) (statusText r) (status r))
      else Inr r)"
  by (simp add: classify_def)

lemma classify_success_range: "200 \<le> status r \<Longrightarrow> status r \<le> 399 \<Longrightarrow> classify r = Inr r"
  by (simp add: classify_def)

lemma classify_gateway_timeout:
  "status r = 504 \<Longrightarrow>
     classify r = Inl (RequestResultUnknownError (data r) (statusText r) (status r))"
  by (simp add: classify_def)

lemma classify_passes_the_rest:
  "status r < 400 \<or> 599 < status r \<Longrightarrow> classify r = Inr r"
  by (auto simp: classify_def)

lemma classify_not_HttpError: "classify r \<noteq> Inl (HttpError m s)"
  by (simp add: classify_def)

lemma classify_not_Missing: "classify r \<noteq> Inl (MissingCredentialsError m)"
  by (simp add: classify_def)

lemma require_apikey_error:
  "require_apikey client endpoint st h = (Some e, h') \<Longrightarrow>
     h' = h \<and> (e = MissingCredentialsError (missing_message endpoint ''apikey'') \<or> e = TypeError)"
  by (auto simp: require_apikey_def split: if_splits val.splits)

lemma sign_inputs_error:
  "sign_inputs now client endpoint st h = (Some e, h') \<Longrightarrow>
     h' = h \<and> e = MissingCredentialsError (missing_message endpoint ''apisecret'')"
  by (auto simp: sign_inputs_def Let_def split: if_splits option.splits)

lemma send_shape:
  "\<exists>h2. send transport client endpoint st h =
     ((case transport (axios client) h2 (sg_options st) of
         Inl e \<Rightarrow> Inl (HttpError (error_toString e) (thrown_stack e))
       | Inr r \<Rightarrow> Inr r), h2, [(h2, sg_options st)])"
  by (auto simp: send_def Let_def split: sum.splits)

subsection \<open>The staging step\<close>

lemma own_props_append: "allocated h v \<Longrightarrow> own_props (h @ hs) v = own_props h v"
  by (cases v) (simp_all add: own_props_def allocated_def deref_def nth_append)

lemma truthy_Undefined: "\<not> truthy Undefined"
  by (simp add: truthy_def)

lemma get_prop_Nil: "get_prop [] k = Undefined"
  by (simp add: get_prop_def)

lemma delete_prop_Nil: "delete_prop [] k = []"
  by (simp add: delete_prop_def)

lemma stage_None:
  "stage endpoint None h =
     (\<lparr>sg_options = length h, sg_method = method_of endpoint,
       sg_headers = Ref (Suc (length h)), sg_inputs = Suc (Suc (length h))\<rparr>,
      h @ [[], [], []])"
  by (simp add: stage_def alloc_def Let_def deref_def get_prop_Nil truthy_Undefined
      own_props_def Object_assign_Nil delete_prop_Nil store_def method_of_def nth_append)

lemma stage_Some_truthy:
  assumes "a < length h" and "truthy (get_prop (deref h a) ''headers'')"
  shows "stage endpoint (Some a) h =
     (\<lparr>sg_options = a, sg_method = method_of endpoint,
       sg_headers = get_prop (deref h a) ''headers'', sg_inputs = length h\<rparr>,
      (h @ [Object_assign [] (caller_parameters endpoint h (Some a))])
        [a := delete_prop (delete_prop (deref h a) ''data'') ''params''])"
  using assms
  by (simp add: stage_def alloc_def Let_def deref_def store_def method_of_def nth_append
      caller_parameters_def caller_value_def)

lemma stage_Some_falsy:
  assumes "a < length h" and "\<not> truthy (get_prop (deref h a) ''headers'')"
    and "allocated h (caller_value h (Some a) (if method_of endpoint = GET then ''params'' else ''data''))"
  shows "stage endpoint (Some a) h =
     (\<lparr>sg_options = a, sg_method = method_of endpoint,
       sg_headers = Ref (length h), sg_inputs = Suc (length h)\<rparr>,
      (h @ [[], Object_assign [] (caller_parameters endpoint h (Some a))])
        [a := delete_prop (delete_prop (deref h a) ''data'') ''params''])"
proof -
  have src: "own_props (h @ [[]]) (get_prop (h ! a) k) = own_props h (get_prop (h ! a) k)"
    if "allocated h (get_prop (h ! a) k)" for k
    using that by (rule own_props_append)
  show ?thesis
    using assms
    by (simp add: stage_def alloc_def Let_def deref_def store_def method_of_def nth_append
      caller_parameters_def caller_value_def src)
qed


lemma stage_facts:
  assumes stg: "stage endpoint optionsArg h = (st, h1)"
    and wf: "well_formed_call h optionsArg"
  shows "length h \<le> sg_inputs st" and "sg_inputs st < length h1"
    and "sg_options st < length h1" and "sg_options st \<noteq> sg_inputs st"
    and "length h \<le> length h1"
    and "sg_headers st \<noteq> Ref (sg_inputs st)"
    and "deref h1 (sg_inputs st) = Object_assign [] (caller_parameters endpoint h optionsArg)"
    and "deref h1 (sg_options st) =
           delete_prop (delete_prop (caller_options h optionsArg) ''data'') ''params''"
    and "sg_method st = method_of endpoint"
    and "optionsArg = Some a \<Longrightarrow> sg_options st = a"
    and "optionsArg = None \<Longrightarrow> length h \<le> sg_options st"
    and "truthy (caller_value h optionsArg ''headers'') \<Longrightarrow>
           sg_headers st = caller_value h optionsArg ''headers''"
    and "\<not> truthy (caller_value h optionsArg ''headers'') \<Longrightarrow>
           \<exists>b. sg_headers st = Ref b \<and> length h \<le> b \<and> b < length h1
               \<and> b \<noteq> sg_options st \<and> b \<noteq> sg_inputs st \<and> deref h1 b = []"
    and "b < length h \<Longrightarrow> b \<noteq> sg_options st \<Longrightarrow> deref h1 b = deref h b"
proof -
  consider (none) "optionsArg = None"
    | (truthy) p where "optionsArg = Some p" "truthy (get_prop (deref h p) ''headers'')"
    | (falsy) p where "optionsArg = Some p" "\<not> truthy (get_prop (deref h p) ''headers'')"
    by (cases optionsArg) auto
  then have "length h \<le> sg_inputs st \<and> sg_inputs st < length h1
    \<and> sg_options st < length h1 \<and> sg_options st \<noteq> sg_inputs st
    \<and> length h \<le> length h1
    \<and> sg_headers st \<noteq> Ref (sg_inputs st)
    \<and> deref h1 (sg_inputs st) = Object_assign [] (caller_parameters endpoint h optionsArg)
    \<and> deref h1 (sg_options st) =
           delete_prop (delete_prop (caller_options h optionsArg) ''data'') ''params''
    \<and> sg_method st = method_of endpoint
    \<and> (optionsArg = Some a \<longrightarrow> sg_options st = a)
    \<and> (optionsArg = None \<longrightarrow> length h \<le> sg_options st)
    \<and> (truthy (caller_value h optionsArg ''headers'') \<longrightarrow>
           sg_headers st = caller_value h optionsArg ''headers'')
    \<and> (\<not> truthy (caller_value h optionsArg ''headers'') \<longrightarrow>
           (\<exists>b. sg_headers st = Ref b \<and> length h \<le> b \<and> b < length h1
               \<and> b \<noteq> sg_options st \<and> b \<noteq> sg_inputs st \<and> deref h1 b = []))
    \<and> (b < length h \<longrightarrow> b \<noteq> sg_options st \<longrightarrow> deref h1 b = deref h b)"
  proof cases
    case none
    have st: "st = \<lparr>sg_options = length h, sg_method = method_of endpoint,
       sg_headers = Ref (Suc (length h)), sg_inputs = Suc (Suc (length h))\<rparr>"
      and h1: "h1 = h @ [[], [], []]"
      using stg none by (simp_all add: stage_None)
    show ?thesis
      by (simp add: st h1 none deref_def nth_append caller_parameters_def caller_value_def
          caller_options_def own_props_def Object_assign_Nil delete_prop_Nil truthy_Undefined)
  next
    case truthy
    have p_lt: "p < length h"
      using wf truthy by (simp add: well_formed_call_def)
    have st: "st = \<lparr>sg_options = p, sg_method = method_of endpoint,
       sg_headers = get_prop (deref h p) ''headers'', sg_inputs = length h\<rparr>"
      and h1: "h1 = (h @ [Object_assign [] (caller_parameters endpoint h (Some p))])
        [p := delete_prop (delete_prop (deref h p) ''data'') ''params'']"
      using stg truthy p_lt by (simp_all add: stage_Some_truthy)
    have al: "allocated h (get_prop (deref h p) ''headers'')"
      using wf truthy by (simp add: well_formed_call_def caller_value_def)
    then have hd: "get_prop (deref h p) ''headers'' \<noteq> Ref (length h)"
      by (auto simp: allocated_def)
    show ?thesis
      using p_lt truthy(2) hd
      by (simp add: st h1 truthy(1) deref_def nth_append caller_value_def caller_options_def
          nth_list_update)
  next
    case falsy
    have p_lt: "p < length h"
      using wf falsy by (simp add: well_formed_call_def)
    have "allocated h (caller_value h (Some p) (if method_of endpoint = GET then ''params'' else ''data''))"
      using wf falsy by (simp add: well_formed_call_def)
    then have st: "st = \<lparr>sg_options = p, sg_method = method_of endpoint,
       sg_headers = Ref (length h), sg_inputs = Suc (length h)\<rparr>"
      and h1: "h1 = (h @ [[], Object_assign [] (caller_parameters endpoint h (Some p))])
        [p := delete_prop (delete_prop (deref h p) ''data'') ''params'']"
      using stg falsy p_lt by (simp_all add: stage_Some_falsy)
    show ?thesis
      using p_lt falsy(2)
      by (simp add: st h1 falsy(1) deref_def nth_append caller_value_def caller_options_def
          nth_list_update)
  qed
  then show "length h \<le> sg_inputs st" and "sg_inputs st < length h1"
    and "sg_options st < length h1" and "sg_options st \<noteq> sg_inputs st"
    and "length h \<le> length h1"
    and "sg_headers st \<noteq> Ref (sg_inputs st)"
    and "deref h1 (sg_inputs st) = Object_assign [] (caller_parameters endpoint h optionsArg)"
    and "deref h1 (sg_options st) =
           delete_prop (delete_prop (caller_options h optionsArg) ''data'') ''params''"
    and "sg_method st = method_of endpoint"
    and "optionsArg = Some a \<Longrightarrow> sg_options st = a"
    and "optionsArg = None \<Longrightarrow> length h \<le> sg_options st"
    and "truthy (caller_value h optionsArg ''headers'') \<Longrightarrow>
           sg_headers st = caller_value h optionsArg ''headers''"
    and "\<not> truthy (caller_value h optionsArg ''headers'') \<Longrightarrow>
           \<exists>b. sg_headers st = Ref b \<and> length h \<le> b \<and> b < length h1
               \<and> b \<noteq> sg_options st \<and> b \<noteq> sg_inputs st \<and> deref h1 b = []"
    and "b < length h \<Longrightarrow> b \<noteq> sg_options st \<Longrightarrow> deref h1 b = deref h b"
    by blast+
qed


lemma store_store: "store (store h a x) a y = store h a y"
  by (simp add: store_def)

lemma require_apikey_ok:
  assumes "security endpoint \<noteq> NONE" and "apikey (options client) = Some k" and "k \<noteq> []"
    and "sg_headers st = Ref a"
  shows "require_apikey client endpoint st h =
           (None, store h a (set_prop (deref h a) ''X-MBX-APIKEY'' (Str k)))"
  using assms by (simp add: require_apikey_def opt_val_def truthy_def)

lemma require_apikey_missing:
  assumes "security endpoint \<noteq> NONE" and "\<not> truthy (opt_val (apikey (options client)))"
  shows "require_apikey client endpoint st h =
           (Some (MissingCredentialsError (missing_message endpoint ''apikey'')), h)"
  using assms by (simp add: require_apikey_def)

lemma sign_inputs_missing:
  assumes "security endpoint = SIGNED" and "\<not> truthy (opt_val (apisecret (options client)))"
  shows "sign_inputs now client endpoint st h =
           (Some (MissingCredentialsError (missing_message endpoint ''apisecret'')), h)"
  using assms by (auto simp: sign_inputs_def opt_val_def truthy_def split: option.splits)

lemma sign_inputs_ok:
  assumes "security endpoint = SIGNED" and "apisecret (options client) = Some secret"
    and "secret \<noteq> []" and "sg_inputs st < length h"
  shows "sign_inputs now client endpoint st h =
           (None, store h (sg_inputs st)
              (set_prop (set_prop (deref h (sg_inputs st)) ''timestamp'' (Num now)) ''signature''
                 (Str (getHmac (signed_string now (deref h (sg_inputs st))) secret))))"
  using assms by (simp add: sign_inputs_def Let_def deref_store store_store)

lemma send_ok:
  assumes "sg_options st < length h" and "sg_options st \<noteq> sg_inputs st"
  shows "send transport client endpoint st h =
     (let h2 = store h (sg_options st)
                (set_prop
                   (Object_assign (deref h (sg_options st))
                      [(''url'', Str (url_join ''https://api.binance.com/api'' (url endpoint))),
                       (''headers'', sg_headers st),
                       (''method'', Str (method_name (sg_method st))),
                       (''validateStatus'', Closure ''() => { return true }'')])
                   (if sg_method st = GET then ''params'' else ''data'')
                   (if sg_method st = GET then Ref (sg_inputs st)
                    else Str (qstringify (deref h (sg_inputs st)))))
      in ((case transport (axios client) h2 (sg_options st) of
             Inl e \<Rightarrow> Inl (HttpError (error_toString e) (thrown_stack e))
           | Inr r \<Rightarrow> Inr r), h2, [(h2, sg_options st)]))"
proof (cases "sg_method st = GET")
  case True
  then show ?thesis
    using assms by (simp add: send_def Let_def deref_store store_store split: sum.splits)
next
  case False
  then show ?thesis
    using assms by (simp add: send_def Let_def deref_store store_store split: sum.splits)
qed

subsection \<open>A dispatch that reaches the transport\<close>

lemma get_prop_request_options:
  "get_prop (set_prop (Object_assign ob
       [(''url'', u), (''headers'', hv), (''method'', m), (''validateStatus'', f)]) pk pv) k =
     (if k = pk then pv else if k = ''url'' then u else if k = ''headers'' then hv
      else if k = ''method'' then m else if k = ''validateStatus'' then f else get_prop ob k)"
  by (simp add: get_prop_set_prop get_prop_Object_assign)

lemma http_dispatch:
  fixes now :: int
  assumes wf: "well_formed_call h optionsArg"
    and hdr: "security endpoint \<noteq> NONE \<Longrightarrow> object_or_falsy (caller_value h optionsArg ''headers'')"
    and key: "security endpoint \<noteq> NONE \<Longrightarrow> apikey (options client) = Some k \<and> k \<noteq> []"
    and sec: "security endpoint = SIGNED \<Longrightarrow> apisecret (options client) = Some secret \<and> secret \<noteq> []"
  defines "C \<equiv> Object_assign [] (caller_parameters endpoint h optionsArg)"
  defines "W \<equiv> (if security endpoint = SIGNED
                  then set_prop (set_prop C ''timestamp'' (Num now)) ''signature''
                         (Str (getHmac (signed_string now C) secret))
                  else C)"
  shows "\<exists>hf opts i.
     http transport now client endpoint optionsArg h =
       ((case transport (axios client) hf opts of
           Inl e \<Rightarrow> Inl (HttpError (error_toString e) (thrown_stack e))
         | Inr r \<Rightarrow> classify r), hf, [(hf, opts)])
     \<and> (\<forall>a. optionsArg = Some a \<longrightarrow> opts = a)
     \<and> opts < length hf \<and> length h \<le> i \<and> i < length hf \<and> i \<noteq> opts
     \<and> deref hf i = W
     \<and> (method_of endpoint = GET \<longrightarrow> get_prop (deref hf opts) ''params'' = Ref i)
     \<and> (method_of endpoint \<noteq> GET \<longrightarrow> get_prop (deref hf opts) ''data'' = Str (qstringify W))
     \<and> get_prop (sent_headers (hf, opts)) ''X-MBX-APIKEY'' =
          (if security endpoint = NONE
           then get_prop (caller_headers h optionsArg) ''X-MBX-APIKEY'' else Str k)
     \<and> (\<forall>b. b < length h \<and> b \<noteq> opts \<and> caller_value h optionsArg ''headers'' \<noteq> Ref b
            \<longrightarrow> deref hf b = deref h b)"
proof -
  obtain st h1 where stg: "stage endpoint optionsArg h = (st, h1)"
    by (cases "stage endpoint optionsArg h")
  note sf = stage_facts [OF stg wf]
  define opts where "opts = sg_options st"
  define i where "i = sg_inputs st"
  let ?hv = "caller_value h optionsArg ''headers''"
  have i_C: "deref h1 i = C"
    using sf(7) by (simp add: i_def C_def)
  have i_lt: "i < length h1" and opts_lt: "opts < length h1" and oi: "opts \<noteq> i"
    and i_ge: "length h \<le> i"
    using sf(1-4) by (simp_all add: i_def opts_def)
  \<comment> \<open>the headers object\<close>
  have hd_cases: "(\<exists>a. sg_headers st = Ref a \<and> a \<noteq> i \<and> a < length h1
                      \<and> (truthy ?hv \<longrightarrow> ?hv = Ref a)
                      \<and> (\<not> truthy ?hv \<longrightarrow> length h \<le> a \<and> a \<noteq> opts \<and> deref h1 a = []))
                  \<or> (security endpoint = NONE \<and> truthy ?hv \<and> sg_headers st = ?hv
                      \<and> (\<forall>a. ?hv \<noteq> Ref a))"
  proof (cases "truthy ?hv")
    case False
    then show ?thesis
      using sf(13) by (auto simp: i_def opts_def)
  next
    case True
    then have eq: "sg_headers st = ?hv"
      using sf(12) by simp
    show ?thesis
    proof (cases "\<exists>a. ?hv = Ref a")
      case True
      then obtain a where a: "?hv = Ref a" by blast
      have "a < length h"
        using wf a by (simp add: well_formed_call_def allocated_def)
      then have "a < length h1" "a \<noteq> i"
        using sf(5) i_ge by simp_all
      then show ?thesis
        using a eq \<open>truthy ?hv\<close> by auto
    next
      case False
      then have "\<not> object_or_falsy ?hv"
        using True by (cases ?hv) (simp_all add: object_or_falsy_def)
      then have "security endpoint = NONE"
        using hdr by blast
      then show ?thesis
        using True eq False by auto
    qed
  qed
  \<comment> \<open>lines 67 to 75\<close>
  obtain h2 where rk: "require_apikey client endpoint st h1 = (None, h2)"
    and len2: "length h2 = length h1"
    and h2_other: "\<And>b. sg_headers st \<noteq> Ref b \<Longrightarrow> deref h2 b = deref h1 b"
    and h2_none: "security endpoint = NONE \<Longrightarrow> h2 = h1"
    and h2_key: "\<And>a. security endpoint \<noteq> NONE \<Longrightarrow> sg_headers st = Ref a \<Longrightarrow>
                   deref h2 a = set_prop (deref h1 a) ''X-MBX-APIKEY'' (Str k)"
  proof (cases "security endpoint = NONE")
    case True
    then show ?thesis
      using that [of h1] by (simp add: require_apikey_def)
  next
    case False
    then obtain a where a: "sg_headers st = Ref a" "a < length h1"
      using hd_cases by auto
    have "require_apikey client endpoint st h1 =
           (None, store h1 a (set_prop (deref h1 a) ''X-MBX-APIKEY'' (Str k)))"
      using require_apikey_ok [OF False _ _ a(1)] key [OF False] by simp
    then show ?thesis
      using that [of "store h1 a (set_prop (deref h1 a) ''X-MBX-APIKEY'' (Str k))"] a False
      by (auto simp: deref_store)
  qed
  have h2_i: "deref h2 i = C"
    using h2_other [of i] sf(6) i_C by (simp add: i_def)
  \<comment> \<open>lines 78 to 90\<close>
  obtain h3 where sg: "sign_inputs now client endpoint st h2 = (None, h3)"
    and len3: "length h3 = length h1"
    and h3_i: "deref h3 i = W"
    and h3_other: "\<And>b. b \<noteq> i \<Longrightarrow> deref h3 b = deref h2 b"
  proof (cases "security endpoint = SIGNED")
    case True
    have "sign_inputs now client endpoint st h2 =
           (None, store h2 i
              (set_prop (set_prop (deref h2 i) ''timestamp'' (Num now)) ''signature''
                 (Str (getHmac (signed_string now (deref h2 i)) secret))))"
      using sign_inputs_ok [OF True, of client secret st h2 now] sec [OF True] i_lt len2
      by (simp add: i_def)
    then show ?thesis
      using that [of "store h2 i W"] True i_lt len2
      by (simp add: h2_i W_def deref_store)
  next
    case False
    then show ?thesis
      using that [of h2] len2 h2_i by (simp add: sign_inputs_def W_def)
  qed
  \<comment> \<open>lines 94 to 121\<close>
  define ro where "ro = set_prop
       (Object_assign (deref h3 opts)
          [(''url'', Str (url_join ''https://api.binance.com/api'' (url endpoint))),
           (''headers'', sg_headers st),
           (''method'', Str (method_name (sg_method st))),
           (''validateStatus'', Closure ''() => { return true }'')])
       (if sg_method st = GET then ''params'' else ''data'')
       (if sg_method st = GET then Ref i else Str (qstringify W))"
  define hf where "hf = store h3 opts ro"
  have snd: "send transport client endpoint st h3 =
      ((case transport (axios client) hf opts of
          Inl e \<Rightarrow> Inl (HttpError (error_toString e) (thrown_stack e))
        | Inr r \<Rightarrow> Inr r), hf, [(hf, opts)])"
    using send_ok [of st h3 transport client endpoint] opts_lt oi len3 h3_i
    by (simp add: Let_def hf_def ro_def opts_def i_def)
  have run: "http transport now client endpoint optionsArg h =
       ((case transport (axios client) hf opts of
           Inl e \<Rightarrow> Inl (HttpError (error_toString e) (thrown_stack e))
         | Inr r \<Rightarrow> classify r), hf, [(hf, opts)])"
    by (simp add: http_def stg rk sg snd split: sum.splits)
  have hf_opts: "deref hf opts = ro"
    using opts_lt len3 by (simp add: hf_def deref_store)
  have hf_other: "deref hf b = deref h3 b" if "b \<noteq> opts" for b
    using that by (simp add: hf_def deref_store)
  have hf_i: "deref hf i = W"
    using hf_other [of i] oi h3_i by simp
  have ro_headers: "get_prop ro ''headers'' = sg_headers st"
    by (simp add: ro_def get_prop_request_options)
  have ro_key: "get_prop ro ''X-MBX-APIKEY'' = get_prop (deref h3 opts) ''X-MBX-APIKEY''"
    by (simp add: ro_def get_prop_request_options)
  have h3_opts: "deref h3 opts = deref h2 opts"
    using h3_other [of opts] oi by simp
  have h1_opts: "deref h1 opts =
      delete_prop (delete_prop (caller_options h optionsArg) ''data'') ''params''"
    using sf(8) by (simp add: opts_def)
  have hdr_key: "get_prop (sent_headers (hf, opts)) ''X-MBX-APIKEY'' =
          (if security endpoint = NONE
           then get_prop (caller_headers h optionsArg) ''X-MBX-APIKEY'' else Str k)"
    using hd_cases
  proof (elim disjE exE conjE)
    fix a
    assume a: "sg_headers st = Ref a" "a \<noteq> i" "a < length h1"
      and tr: "truthy ?hv \<longrightarrow> ?hv = Ref a"
      and fl: "\<not> truthy ?hv \<longrightarrow> length h \<le> a \<and> a \<noteq> opts \<and> deref h1 a = []"
    have sent: "sent_headers (hf, opts) = deref hf a"
      by (simp add: sent_headers_def hf_opts ro_headers a(1))
    have via: "get_prop (deref hf a) ''X-MBX-APIKEY'' = get_prop (deref h2 a) ''X-MBX-APIKEY''"
    proof (cases "a = opts")
      case True
      then show ?thesis by (simp add: hf_opts ro_key h3_opts)
    next
      case False
      then show ?thesis using hf_other [of a] h3_other [of a] a(2) by simp
    qed
    show ?thesis
    proof (cases "security endpoint = NONE")
      case False
      then show ?thesis
        using h2_key [OF False a(1)] by (simp add: sent via get_prop_set_prop)
    next
      case True
      have "get_prop (deref h1 a) ''X-MBX-APIKEY'' = get_prop (caller_headers h optionsArg) ''X-MBX-APIKEY''"
      proof (cases "truthy ?hv")
        case False
        then have "\<forall>b. ?hv \<noteq> Ref b"
          by (auto simp: truthy_def)
        then have "caller_headers h optionsArg = []"
          by (cases ?hv) (simp_all add: caller_headers_def)
        then show ?thesis
          using fl False by (simp add: get_prop_Nil)
      next
        case T: True
        then have hv: "?hv = Ref a" using tr by simp
        have ch: "caller_headers h optionsArg = deref h a"
          by (simp add: caller_headers_def hv)
        have alt: "a < length h"
          using wf hv by (simp add: well_formed_call_def allocated_def)
        show ?thesis
        proof (cases "a = opts")
          case False
          then show ?thesis
            using sf(14) [of a] alt by (simp add: ch opts_def)
        next
          case True
          have "optionsArg = Some a"
            using alt True sf(10) sf(11) by (cases optionsArg) (auto simp: opts_def)
          then have "caller_options h optionsArg = deref h a"
            by (simp add: caller_options_def)
          then show ?thesis
            using True by (simp add: h1_opts ch get_prop_delete_prop)
        qed
      qed
      then show ?thesis
        using True h2_none by (simp add: sent via)
    qed
  next
    assume pr: "security endpoint = NONE" "truthy ?hv" "sg_headers st = ?hv" "\<forall>a. ?hv \<noteq> Ref a"
    have "sent_headers (hf, opts) = []"
      using pr(3,4) by (cases ?hv) (simp_all add: sent_headers_def hf_opts ro_headers)
    moreover have "caller_headers h optionsArg = []"
      using pr(4) by (cases ?hv) (simp_all add: caller_headers_def)
    ultimately show ?thesis
      using pr(1) by simp
  qed
  have frame: "deref hf b = deref h b"
    if "b < length h" "b \<noteq> opts" "?hv \<noteq> Ref b" for b
  proof -
    have bi: "b \<noteq> i" using that(1) i_ge by simp
    have "sg_headers st \<noteq> Ref b"
      using hd_cases that by auto
    then have "deref h2 b = deref h1 b"
      by (rule h2_other)
    moreover have "deref h1 b = deref h b"
      using sf(14) [of b] that by (simp add: opts_def)
    ultimately show ?thesis
      using hf_other [of b] h3_other [of b] that(2) bi by simp
  qed
  have par: "method_of endpoint = GET \<longrightarrow> get_prop (deref hf opts) ''params'' = Ref i"
    using sf(9) by (simp add: hf_opts ro_def get_prop_set_prop)
  have dat: "method_of endpoint \<noteq> GET \<longrightarrow> get_prop (deref hf opts) ''data'' = Str (qstringify W)"
    using sf(9) by (simp add: hf_opts ro_def get_prop_set_prop)
  have arg: "\<forall>a. optionsArg = Some a \<longrightarrow> opts = a"
    using sf(10) by (simp add: opts_def)
  have "opts < length hf" "i < length hf"
    using opts_lt i_lt len3 by (simp_all add: hf_def)
  then show ?thesis
    using run arg i_ge oi hf_i par dat hdr_key frame by blast
qed

subsection \<open>Public endpoints and the order book\<close>

lemma require_apikey_public:
  "security endpoint = NONE \<Longrightarrow> require_apikey client endpoint st h = (None, h)"
  by (simp add: require_apikey_def)

lemma sign_inputs_unsigned:
  "security endpoint \<noteq> SIGNED \<Longrightarrow> sign_inputs now client endpoint st h = (None, h)"
  by (simp add: sign_inputs_def)

lemma http_public_outcome:
  assumes "security endpoint = NONE"
  shows "\<exists>c. snd (snd (http transport now client endpoint optionsArg h)) = [c]
           \<and> fst (http transport now client endpoint optionsArg h) =
               (case transport (axios client) (fst c) (snd c) of
                  Inl e \<Rightarrow> Inl (HttpError (error_toString e) (thrown_stack e))
                | Inr r \<Rightarrow> classify r)"
proof -
  obtain st h1 where stg: "stage endpoint optionsArg h = (st, h1)"
    by (cases "stage endpoint optionsArg h")
  obtain h4 where snd: "send transport client endpoint st h1 =
         ((case transport (axios client) h4 (sg_options st) of
             Inl e \<Rightarrow> Inl (HttpError (error_toString e) (thrown_stack e))
           | Inr r \<Rightarrow> Inr r), h4, [(h4, sg_options st)])"
    using send_shape by blast
  show ?thesis
    using assms stg snd
    by (auto simp: http_def require_apikey_public sign_inputs_unsigned split: sum.splits)
qed

lemma to_entry_pair: "to_entry (JArr [JStr p, JStr q]) = Inr \<lparr>price = JStr p, quantity = JStr q\<rparr>"
  by (simp add: to_entry_def js_index_def)

lemma collect_pairs:
  "collect (map (\<lambda>pq. to_entry (JArr [JStr (fst pq), JStr (snd pq)])) ps) =
     Inr (map (\<lambda>pq. \<lparr>price = JStr (fst pq), quantity = JStr (snd pq)\<rparr>) ps)"
  by (induction ps) (simp_all add: to_entry_pair)

lemma js_map_pairs:
  "js_map to_entry (JArr (map (\<lambda>pq. JArr [JStr (fst pq), JStr (snd pq)]) ps)) =
     Inr (map (\<lambda>pq. \<lparr>price = JStr (fst pq), quantity = JStr (snd pq)\<rparr>) ps)"
  by (simp add: js_map_def collect_pairs comp_def)

subsection \<open>Copies, and missing credentials\<close>

lemma has_prop_copy: "has_prop (Object_assign [] ps) f = has_prop ps f"
  by (simp add: has_prop_Object_assign) (simp add: has_prop_def)

lemma stage_headers_object:
  assumes "stage endpoint optionsArg h = (st, h1)"
    and "object_or_falsy (caller_value h optionsArg ''headers'')"
  shows "\<exists>a. sg_headers st = Ref a"
proof (cases optionsArg)
  case None
  then show ?thesis
    using assms(1) by (auto simp: stage_None)
next
  case (Some p)
  let ?hv = "get_prop (deref h p) ''headers''"
  show ?thesis
  proof (cases "truthy ?hv")
    case True
    then have "sg_headers st = ?hv"
      using assms(1) Some
      by (auto simp: stage_def alloc_def Let_def split: prod.splits)
    moreover have "\<exists>a. ?hv = Ref a"
      using assms(2) True Some
      by (cases ?hv) (simp_all add: object_or_falsy_def caller_value_def)
    ultimately show ?thesis by simp
  next
    case False
    then show ?thesis
      using assms(1) Some
      by (auto simp: stage_def alloc_def Let_def split: prod.splits)
  qed
qed

lemma http_missing_apikey:
  assumes "security endpoint \<noteq> NONE" and "\<not> truthy (opt_val (apikey (options client)))"
  shows "http transport now client endpoint optionsArg h =
           (Inl (MissingCredentialsError (missing_message endpoint ''apikey'')),
            snd (stage endpoint optionsArg h), [])"
  using assms
  by (simp add: http_def require_apikey_missing split: prod.splits)

subsection \<open>What a dispatch leaves alone\<close>

lemma require_apikey_frame:
  assumes "require_apikey client endpoint st h = (r, h')" and "sg_headers st \<noteq> Ref b"
  shows "deref h' b = deref h b"
  using assms
  by (cases "sg_headers st") (auto simp: require_apikey_def deref_store split: if_splits)

lemma require_apikey_length:
  "require_apikey client endpoint st h = (r, h') \<Longrightarrow> length h' = length h"
  by (cases "sg_headers st") (auto simp: require_apikey_def split: if_splits)

lemma sign_inputs_frame:
  assumes "sign_inputs now client endpoint st h = (r, h')" and "b \<noteq> sg_inputs st"
  shows "deref h' b = deref h b"
  using assms
  by (auto simp: sign_inputs_def Let_def deref_store split: if_splits option.splits)

lemma sign_inputs_length:
  "sign_inputs now client endpoint st h = (r, h') \<Longrightarrow> length h' = length h"
  by (auto simp: sign_inputs_def Let_def split: if_splits option.splits)

lemma send_frame:
  assumes "send transport client endpoint st h = (r, h', calls)" and "b \<noteq> sg_options st"
  shows "deref h' b = deref h b"
  using assms
  by (auto simp: send_def Let_def deref_store split: if_splits sum.splits)

lemma send_call:
  assumes "send transport client endpoint st h = (r, h', calls)"
    and "sg_options st < length h"
  shows "calls = [(h', sg_options st)]"
    and "sg_method st = GET \<Longrightarrow> get_prop (deref h' (sg_options st)) ''params'' = Ref (sg_inputs st)"
    and "length h' = length h"
  using assms
  by (auto simp: send_def Let_def deref_store get_prop_set_prop split: if_splits sum.splits)

lemma stage_headers_frame:
  assumes stg: "stage endpoint optionsArg h = (st, h1)"
    and wf: "well_formed_call h optionsArg"
    and b: "b < length h" "caller_value h optionsArg ''headers'' \<noteq> Ref b"
  shows "sg_headers st \<noteq> Ref b"
proof (cases "truthy (caller_value h optionsArg ''headers'')")
  case True
  then show ?thesis
    using stage_facts(12) [OF stg wf] b(2) by simp
next
  case False
  then show ?thesis
    using stage_facts(13) [OF stg wf] b(1) by auto
qed

lemma http_frame:
  assumes wf: "well_formed_call h optionsArg"
    and b: "b < length h" "optionsArg \<noteq> Some b" "caller_value h optionsArg ''headers'' \<noteq> Ref b"
  shows "deref (fst (snd (http transport now client endpoint optionsArg h))) b = deref h b"
proof -
  obtain st h1 where stg: "stage endpoint optionsArg h = (st, h1)"
    by (cases "stage endpoint optionsArg h")
  note sf = stage_facts [OF stg wf]
  have bo: "b \<noteq> sg_options st"
    using sf(10) sf(11) b(1,2) by (cases optionsArg) auto
  have bi: "b \<noteq> sg_inputs st"
    using sf(1) b(1) by simp
  have bh: "sg_headers st \<noteq> Ref b"
    using stage_headers_frame [OF stg wf b(1) b(3)] .
  have f1: "deref h1 b = deref h b"
    using sf(14) [of b] b(1) bo by simp
  obtain r2 h2 where rk: "require_apikey client endpoint st h1 = (r2, h2)"
    by (cases "require_apikey client endpoint st h1")
  have f2: "deref h2 b = deref h b"
    using require_apikey_frame [OF rk bh] f1 by simp
  obtain r3 h3 where sg: "sign_inputs now client endpoint st h2 = (r3, h3)"
    by (cases "sign_inputs now client endpoint st h2")
  have f3: "deref h3 b = deref h b"
    using sign_inputs_frame [OF sg bi] f2 by simp
  obtain r4 h4 calls where sn: "send transport client endpoint st h3 = (r4, h4, calls)"
    by (cases "send transport client endpoint st h3")
  have f4: "deref h4 b = deref h b"
    using send_frame [OF sn bo] f3 by simp
  show ?thesis
    using f1 f2 f3 f4
    by (simp add: http_def stg rk sg sn split: option.splits sum.splits)
qed

lemma http_working_mapping_fresh:
  assumes wf: "well_formed_call h optionsArg"
    and c: "c \<in> set (snd (snd (http transport now client endpoint optionsArg h)))"
    and g: "method_of endpoint = GET"
  shows "\<exists>i. get_prop (deref (fst c) (snd c)) ''params'' = Ref i \<and> length h \<le> i"
proof -
  obtain st h1 where stg: "stage endpoint optionsArg h = (st, h1)"
    by (cases "stage endpoint optionsArg h")
  note sf = stage_facts [OF stg wf]
  obtain r2 h2 where rk: "require_apikey client endpoint st h1 = (r2, h2)"
    by (cases "require_apikey client endpoint st h1")
  obtain r3 h3 where sg: "sign_inputs now client endpoint st h2 = (r3, h3)"
    by (cases "sign_inputs now client endpoint st h2")
  obtain r4 h4 calls where sn: "send transport client endpoint st h3 = (r4, h4, calls)"
    by (cases "send transport client endpoint st h3")
  have "sg_options st < length h3"
    using sf(3) require_apikey_length [OF rk] sign_inputs_length [OF sg] by simp
  note sc = send_call [OF sn this]
  have "c = (h4, sg_options st)"
    using c by (auto simp: http_def stg rk sg sn sc(1) split: option.splits sum.splits)
  then show ?thesis
    using sc(2) sf(9) g sf(1) by auto
qed

subsection \<open>The signed mapping and its serialisation\<close>

lemma delete_prop_snoc_fresh: "\<not> has_prop ob k \<Longrightarrow> delete_prop (ob @ [(k, v)]) k = ob"
  by (induction ob) (auto simp: delete_prop_def has_prop_def)

lemma escape_signature_name: "escape ''signature'' = ''signature''"
  by (simp add: escape_def unreserved_def)

lemma has_prop_nonempty: "has_prop ob k \<Longrightarrow> ob \<noteq> []"
  by (auto simp: has_prop_def)

lemma signed_mapping:
  fixes now :: int and secret :: string
  assumes nosig: "\<not> has_prop C ''signature''"
  defines "T \<equiv> set_prop C ''timestamp'' (Num now)"
  defines "sg \<equiv> getHmac (signed_string now C) secret"
  shows "set_prop T ''signature'' (Str sg) = T @ [(''signature'', Str sg)]"
    and "qstringify (set_prop T ''signature'' (Str sg)) = signed_string now C @ ''&signature='' @ sg"
    and "delete_prop (set_prop T ''signature'' (Str sg)) ''signature'' = T"
    and "get_prop (set_prop T ''signature'' (Str sg)) ''signature'' = Str sg"
    and "get_prop (set_prop T ''signature'' (Str sg)) ''timestamp'' = Num now"
    and "get_prop T ''timestamp'' = Num now"
    and "signature_verifies secret (set_prop T ''signature'' (Str sg))"
proof -
  have fresh: "\<not> has_prop T ''signature''"
    using nosig by (simp add: T_def has_prop_set_prop)
  show app: "set_prop T ''signature'' (Str sg) = T @ [(''signature'', Str sg)]"
    using fresh by (rule set_prop_fresh)
  have ne: "T \<noteq> []"
    by (rule has_prop_nonempty [of _ "''timestamp''"]) (simp add: T_def has_prop_set_prop)
  have esc: "escape sg = sg"
    unfolding sg_def by (rule escape_getHmac)
  have str: "signed_string now C = qstringify T"
    unfolding T_def by (rule signed_string_def)
  have "qstringify (T @ [(''signature'', Str sg)]) =
          qstringify T @ ''&'' @ escape ''signature'' @ ''='' @ escape (stringifyPrimitive (Str sg))"
    by (rule qstringify_snoc [OF ne])
  also have "\<dots> = qstringify T @ ''&signature='' @ sg"
    by (simp add: escape_signature_name stringifyPrimitive_def esc)
  finally show "qstringify (set_prop T ''signature'' (Str sg)) =
      signed_string now C @ ''&signature='' @ sg"
    unfolding app str .
  show del: "delete_prop (set_prop T ''signature'' (Str sg)) ''signature'' = T"
    by (simp add: app delete_prop_snoc_fresh [OF fresh])
  show sig: "get_prop (set_prop T ''signature'' (Str sg)) ''signature'' = Str sg"
    by (simp add: get_prop_set_prop)
  show "get_prop (set_prop T ''signature'' (Str sg)) ''timestamp'' = Num now"
    by (simp add: get_prop_set_prop T_def)
  show "get_prop T ''timestamp'' = Num now"
    by (simp add: get_prop_set_prop T_def)
  show "signature_verifies secret (set_prop T ''signature'' (Str sg))"
    unfolding signature_verifies_def del sig unfolding sg_def str ..
qed

lemma qstringify_Cons:
  "qstringify ((k, v) # kv # rest) =
     escape k @ ''='' @ escape (stringifyPrimitive v) @ ''&'' @ qstringify (kv # rest)"
  by (simp add: qstringify_def)

lemma qstringify_single: "qstringify [(k, v)] = escape k @ ''='' @ escape (stringifyPrimitive v)"
  by (simp add: qstringify_def)

lemma escape_symbol_name: "escape ''symbol'' = ''symbol''"
  by (simp add: escape_def unreserved_def)

lemma escape_timestamp_name: "escape ''timestamp'' = ''timestamp''"
  by (simp add: escape_def unreserved_def)

lemma escape_BTCETH: "escape ''BTCETH'' = ''BTCETH''"
  by (simp add: escape_def unreserved_def)

lemma escape_x: "escape ''x'' = ''x''"
  by (simp add: escape_def unreserved_def)

lemma stringify_five: "escape (show_int 5) = ''5''"
  by (simp add: show_int_def show_nat.simps [of 5] digit_char_def escape_def unreserved_def)

lemmas plain_escapes = escape_signature_name escape_symbol_name escape_timestamp_name
  escape_BTCETH escape_x stringify_five

text \<open>
  Three digests computed by the model: test case 2 of RFC 4231, and the two strings of the
  dispatch with a stale \<^verbatim>\<open>signature\<close> field below.
\<close>

lemma getHmac_rfc4231_test_case_2:
  "getHmac ''what do ya want for nothing?'' ''Jefe'' =
     ''5bdcc146bf60754e6a042426089575c75a003f089d2739839dec58b964ec3843''"
  by code_simp

lemma digest_of_signed_string:
  "getHmac ''signature=x&timestamp=5'' ''s'' =
     ''7faba0ec552904c39c24201dbc154517368ba4b5e1e83ef689fe8c4bff4d7050''"
  by code_simp

lemma digest_of_transmitted_string:
  "getHmac ''timestamp=5'' ''s'' =
     ''8ab23a9e49bcf82c5f4ae937763025007be1d7a7d994672e8434fb802befe08e''"
  by code_simp

section \<open>The claims\<close>

text \<open>
  C2. The claim: every status is classified by exactly one rule, 200 to 399 is a success,
  400 to 499 malformed, 504 unknown, the other 500 to 599 internal, and no status outside
  200 to 399 is passed through as a success. The four rules hold (\<open>classify_cases\<close>), and
  the README says an error is thrown for a status that is not between 200 and 399; but the
  last \<^verbatim>\<open>else\<close> of \<^verbatim>\<open>http\<close> returns every status below 400 or above 599. Here the
  transport answers \<^verbatim>\<open>GET /v1/ping\<close> with status 600 and the dispatch returns that
  response as its result.
\<close>

theorem status_600_is_returned_as_success:
  "fst (http (\<lambda>config h a. Inr \<lparr>status = 600, statusText = JNull, data = JNull\<rparr>) 0
         \<lparr>options = default_options, axios = AXIOS_DEFAULTS\<rparr>
         \<lparr>url = ''/v1/ping'', method' = None, security = NONE\<rparr> None [])
     = Inr \<lparr>status = 600, statusText = JNull, data = JNull\<rparr>"
  by (simp add: http_def stage_def alloc_def require_apikey_def sign_inputs_def send_def
      classify_def Let_def)

text \<open>
  C6. The claim: a client's transport configuration is the fixed defaults (timeout 15000)
  overridden by its own \<^verbatim>\<open>axiosOptions\<close> only, and a construction leaves the defaults
  every other client sees unchanged. \<^verbatim>\<open>Object.assign(AXIOS_DEFAULTS, ...)\<close> writes the
  overrides into the shared \<^verbatim>\<open>AXIOS_DEFAULTS\<close> object: after a first client is built
  with \<^verbatim>\<open>{timeout: 50}\<close>, the defaults are \<^verbatim>\<open>{timeout: 50}\<close> and a second client built
  with no overrides has timeout 50.
\<close>

theorem second_client_inherits_first_clients_override:
  "(let (c1, d1) = RestClient_constructor AXIOS_DEFAULTS
                     (default_options\<lparr>axiosOptions := Some [(''timeout'', Num 50)]\<rparr>);
        (c2, d2) = RestClient_constructor d1 default_options
    in d1 = [(''timeout'', Num 50)] \<and> axios c2 = [(''timeout'', Num 50)]
       \<and> get_prop (axios c2) ''timeout'' \<noteq> get_prop AXIOS_DEFAULTS ''timeout'')"
  by (simp add: RestClient_constructor_def AXIOS_DEFAULTS_def default_options_def
      Object_assign_def set_prop_def axios_create_def get_prop_def Let_def)

text \<open>
  C7. When the transport throws instead of returning a response, the dispatch fails with
  \<open>HttpError\<close> carrying the cause (its rendering as the message, and its stack); and
  \<open>HttpError\<close> comes from nothing else: the outcome is an \<open>HttpError\<close> exactly when the
  dispatch called the transport and that call threw. A received status never gives one.
\<close>

theorem http_error_only_from_transport_failure:
  "fst (http transport now client endpoint optionsArg h) = Inl (HttpError m s) \<longleftrightarrow>
     (\<exists>c e. snd (snd (http transport now client endpoint optionsArg h)) = [c]
        \<and> transport (axios client) (fst c) (snd c) = Inl e
        \<and> m = error_toString e \<and> s = thrown_stack e)"
proof -
  obtain st h1 where stg: "stage endpoint optionsArg h = (st, h1)"
    by (cases "stage endpoint optionsArg h")
  obtain r2 h2 where key: "require_apikey client endpoint st h1 = (r2, h2)"
    by (cases "require_apikey client endpoint st h1")
  show ?thesis
  proof (cases r2)
    case (Some e)
    with key require_apikey_error [of client endpoint st h1 e h2] stg show ?thesis
      by (auto simp: http_def)
  next
    case None
    obtain r3 h3 where sg: "sign_inputs now client endpoint st h2 = (r3, h3)"
      by (cases "sign_inputs now client endpoint st h2")
    show ?thesis
    proof (cases r3)
      case (Some e)
      with sg sign_inputs_error [of now client endpoint st h2 e h3] stg key None show ?thesis
        by (auto simp: http_def)
    next
      case N3: None
      obtain h4 where snd: "send transport client endpoint st h3 =
         ((case transport (axios client) h4 (sg_options st) of
             Inl e \<Rightarrow> Inl (HttpError (error_toString e) (thrown_stack e))
           | Inr r \<Rightarrow> Inr r), h4, [(h4, sg_options st)])"
        using send_shape by blast
      show ?thesis
        using stg key None sg N3 snd classify_not_HttpError
        by (auto simp: http_def split: sum.splits)
    qed
  qed
qed

theorem http_error_only_from_transport_failure_witness:
  "fst (http (\<lambda>config h a. Inl \<lparr>thrown_name = ''Error'',
                 thrown_message = ''timeout of 50ms exceeded'', thrown_stack = None\<rparr>) 0
         \<lparr>options = default_options, axios = AXIOS_DEFAULTS\<rparr>
         \<lparr>url = ''/error/http-error'', method' = None, security = NONE\<rparr> None [])
     = Inl (HttpError ''Error: timeout of 50ms exceeded'' None)"
proof -
  let ?tr = "\<lambda>config h a. Inl \<lparr>thrown_name = ''Error'',
                 thrown_message = ''timeout of 50ms exceeded'', thrown_stack = None\<rparr>"
  let ?cl = "\<lparr>options = default_options, axios = AXIOS_DEFAULTS\<rparr>"
  let ?ep = "\<lparr>url = ''/error/http-error'', method' = None, security = NONE\<rparr>"
  have "\<exists>c. snd (snd (http ?tr 0 ?cl ?ep None [])) = [c]"
    by (simp add: http_def stage_def alloc_def require_apikey_def sign_inputs_def send_def
        Let_def)
  then show ?thesis
    using http_error_only_from_transport_failure
      [of ?tr 0 ?cl ?ep None "[]" "''Error: timeout of 50ms exceeded''" None]
    by (simp add: error_toString_def)
qed

text \<open>
  C8. \<^verbatim>\<open>getHmac(input, apisecret)\<close> is the lowercase hexadecimal HMAC-SHA256 digest of
  the message under the key given by the bytes of the secret as they are: it equals the
  signer of the specification, is 64 characters long and consists of the characters
  \<^verbatim>\<open>0-9a-f\<close>. The digest depends on the two arguments alone, so signing the same string
  with the same secret again gives the same digest.
\<close>

theorem getHmac_is_hex_hmac_sha256:
  "getHmac canonicalBody secret = spec_sign canonicalBody secret
   \<and> length (getHmac canonicalBody secret) = 64
   \<and> list_all lowercase_hex (getHmac canonicalBody secret)
   \<and> (\<forall>body' secret'. body' = canonicalBody \<and> secret' = secret
         \<longrightarrow> getHmac body' secret' = getHmac canonicalBody secret)"
  by (simp add: length_getHmac)
     (simp add: getHmac_eq spec_sign_def Buffer_def hex_string_lowercase)

theorem getHmac_is_hex_hmac_sha256_witness:
  "getHmac ''symbol=LTCBTC&timestamp=1499827319559'' ''an-api-secret-should-go-here''
     = spec_sign ''symbol=LTCBTC&timestamp=1499827319559'' ''an-api-secret-should-go-here''
   \<and> length (getHmac ''symbol=LTCBTC&timestamp=1499827319559''
                ''an-api-secret-should-go-here'') = 64"
  using getHmac_is_hex_hmac_sha256
    [of "''symbol=LTCBTC&timestamp=1499827319559''" "''an-api-secret-should-go-here''"]
  by (elim conjE) (intro conjI, assumption+)

text \<open>
  C9. When the transport answers \<^verbatim>\<open>getOrderBook\<close> with a response that \<^verbatim>\<open>http\<close> returns
  (a status that is no 4xx or 5xx) and whose payload has \<^verbatim>\<open>lastUpdateId\<close> and lists
  \<^verbatim>\<open>bids\<close> and \<^verbatim>\<open>asks\<close> of \<^verbatim>\<open>[price, quantity]\<close> string pairs, the result keeps
  \<^verbatim>\<open>lastUpdateId\<close> and has, for each pair in order, the object with that price and
  quantity.
\<close>

theorem getOrderBook_reshapes_pairs:
  assumes answer: "\<And>c. snd (snd (getOrderBook transport now client symbol limit h)) = [c] \<Longrightarrow>
      transport (axios client) (fst c) (snd c)
        = Inr \<lparr>status = s, statusText = t, data = JObj payload\<rparr>"
    and ok: "s < 400 \<or> 599 < s"
    and uid: "map_of payload ''lastUpdateId'' = Some u"
    and bs: "map_of payload ''bids'' =
               Some (JArr (map (\<lambda>pq. JArr [JStr (fst pq), JStr (snd pq)]) bidPairs))"
    and as: "map_of payload ''asks'' =
               Some (JArr (map (\<lambda>pq. JArr [JStr (fst pq), JStr (snd pq)]) askPairs))"
  shows "fst (getOrderBook transport now client symbol limit h) =
           Inr \<lparr>lastUpdateId = u,
                bids = map (\<lambda>pq. \<lparr>price = JStr (fst pq), quantity = JStr (snd pq)\<rparr>) bidPairs,
                asks = map (\<lambda>pq. \<lparr>price = JStr (fst pq), quantity = JStr (snd pq)\<rparr>) askPairs\<rparr>"
proof -
  let ?r = "\<lparr>status = s, statusText = t, data = JObj payload\<rparr>"
  have cls: "classify ?r = Inr ?r"
    using ok by (intro classify_passes_the_rest) simp
  have shape: "reshape (JObj payload) =
      Inr \<lparr>lastUpdateId = u,
           bids = map (\<lambda>pq. \<lparr>price = JStr (fst pq), quantity = JStr (snd pq)\<rparr>) bidPairs,
           asks = map (\<lambda>pq. \<lparr>price = JStr (fst pq), quantity = JStr (snd pq)\<rparr>) askPairs\<rparr>"
    by (simp add: reshape_def js_member_def uid bs as js_map_pairs)
  obtain p h1 where a1: "alloc h [(''symbol'', Str symbol),
      (''limit'', case limit of None \<Rightarrow> Undefined | Some n \<Rightarrow> Num n)] = (p, h1)"
    by (simp add: alloc_def)
  obtain opts h2 where a2: "alloc h1 [(''params'', Ref p)] = (opts, h2)"
    by (simp add: alloc_def)
  obtain r h3 calls where call: "http transport now client ORDERBOOK (Some opts) h2 = (r, h3, calls)"
    by (cases "http transport now client ORDERBOOK (Some opts) h2")
  have same_calls: "snd (snd (getOrderBook transport now client symbol limit h)) = calls"
    by (cases r) (simp_all add: getOrderBook_def a1 a2 call)
  obtain c where c: "calls = [c]"
    and out: "r = (case transport (axios client) (fst c) (snd c) of
                     Inl e \<Rightarrow> Inl (HttpError (error_toString e) (thrown_stack e))
                   | Inr r \<Rightarrow> classify r)"
    using http_public_outcome [of ORDERBOOK transport now client "Some opts" h2] call
    by (auto simp: ORDERBOOK_def)
  have "transport (axios client) (fst c) (snd c) = Inr ?r"
    using answer same_calls c by simp
  then have "r = Inr ?r"
    using out cls by simp
  then show ?thesis
    by (simp add: getOrderBook_def a1 a2 call shape)
qed

theorem getOrderBook_reshapes_pairs_witness:
  "fst (getOrderBook
         (\<lambda>config hp a. Inr \<lparr>status = 200, statusText = JStr ''OK'',
            data = JObj [(''lastUpdateId'', JNum 1),
                         (''bids'', JArr [JArr [JStr ''4.0'', JStr ''431.0'']]),
                         (''asks'', JArr [JArr [JStr ''4.0002'', JStr ''12.0'']])]\<rparr>)
         0 \<lparr>options = default_options, axios = AXIOS_DEFAULTS\<rparr> ''BTC'' None [])
     = Inr \<lparr>lastUpdateId = JNum 1,
            bids = [\<lparr>price = JStr ''4.0'', quantity = JStr ''431.0''\<rparr>],
            asks = [\<lparr>price = JStr ''4.0002'', quantity = JStr ''12.0''\<rparr>]\<rparr>"
  using getOrderBook_reshapes_pairs
    [where transport = "\<lambda>config hp a. Inr \<lparr>status = 200, statusText = JStr ''OK'',
            data = JObj [(''lastUpdateId'', JNum 1),
                         (''bids'', JArr [JArr [JStr ''4.0'', JStr ''431.0'']]),
                         (''asks'', JArr [JArr [JStr ''4.0002'', JStr ''12.0'']])]\<rparr>"
       and s = 200 and t = "JStr ''OK''"
       and payload = "[(''lastUpdateId'', JNum 1),
          (''bids'', JArr [JArr [JStr ''4.0'', JStr ''431.0'']]),
          (''asks'', JArr [JArr [JStr ''4.0002'', JStr ''12.0'']])]"
       and u = "JNum 1" and bidPairs = "[(''4.0'', ''431.0'')]"
       and askPairs = "[(''4.0002'', ''12.0'')]"
       and now = 0 and client = "\<lparr>options = default_options, axios = AXIOS_DEFAULTS\<rparr>"
       and symbol = "''BTC''" and limit = None and h = "[]"]
  by simp

text \<open>
  C4. The claim: the authentication material of a request is exactly what the endpoint's
  tier asks for; for \<open>NONE\<close> no API-key header and no \<^verbatim>\<open>timestamp\<close> or \<^verbatim>\<open>signature\<close>
  field is attached, for \<open>API_KEY\<close> the header is the configured key and no \<^verbatim>\<open>timestamp\<close>
  or \<^verbatim>\<open>signature\<close> appears in the transmitted parameters. \<^verbatim>\<open>http\<close> adds neither field
  on these tiers, but it copies the caller's parameters as they are, with
  \<^verbatim>\<open>Object.assign({}, options.params)\<close>, and sends the copy: fields of these names that
  the caller passes are transmitted. Here a client with the key \<^verbatim>\<open>k\<close> calls the
  \<open>API_KEY\<close> endpoint \<^verbatim>\<open>GET /security/API-KEY\<close> with the options
  \<^verbatim>\<open>{params: {timestamp: 1, signature: 'x'}}\<close> (the object at address 1, its \<^verbatim>\<open>params\<close> at
  address 0): the one request has the key as its header, and its parameters, the copy at
  address 3, have both \<^verbatim>\<open>timestamp\<close> and \<^verbatim>\<open>signature\<close>.
\<close>

theorem caller_timestamp_and_signature_are_transmitted:
  "snd (snd (http (\<lambda>config hp a. Inr \<lparr>status = 200, statusText = JNull, data = JObj []\<rparr>) 0
               \<lparr>options = \<lparr>apikey = Some ''k'', apisecret = None, axiosOptions = None\<rparr>,
                 axios = AXIOS_DEFAULTS\<rparr>
               \<lparr>url = ''/security/API-KEY'', method' = None, security = API_KEY\<rparr>
               (Some (Suc 0))
               [[(''timestamp'', Num 1), (''signature'', Str ''x'')], [(''params'', Ref 0)]]))
     = [([[(''timestamp'', Num 1), (''signature'', Str ''x'')],
          [(''url'', Str ''https://api.binance.com/api/security/API-KEY''), (''headers'', Ref 2),
           (''method'', Str ''GET''), (''validateStatus'', Closure ''() => { return true }''),
           (''params'', Ref 3)],
          [(''X-MBX-APIKEY'', Str ''k'')],
          [(''timestamp'', Num 1), (''signature'', Str ''x'')]], Suc 0)]
   \<and> get_prop (sent_headers (hd (snd (snd (http
         (\<lambda>config hp a. Inr \<lparr>status = 200, statusText = JNull, data = JObj []\<rparr>) 0
         \<lparr>options = \<lparr>apikey = Some ''k'', apisecret = None, axiosOptions = None\<rparr>,
           axios = AXIOS_DEFAULTS\<rparr>
         \<lparr>url = ''/security/API-KEY'', method' = None, security = API_KEY\<rparr>
         (Some (Suc 0))
         [[(''timestamp'', Num 1), (''signature'', Str ''x'')], [(''params'', Ref 0)]])))))
       ''X-MBX-APIKEY'' = Str ''k''
   \<and> sent_params (hd (snd (snd (http
         (\<lambda>config hp a. Inr \<lparr>status = 200, statusText = JNull, data = JObj []\<rparr>) 0
         \<lparr>options = \<lparr>apikey = Some ''k'', apisecret = None, axiosOptions = None\<rparr>,
           axios = AXIOS_DEFAULTS\<rparr>
         \<lparr>url = ''/security/API-KEY'', method' = None, security = API_KEY\<rparr>
         (Some (Suc 0))
         [[(''timestamp'', Num 1), (''signature'', Str ''x'')], [(''params'', Ref 0)]]))))
       = [(''timestamp'', Num 1), (''signature'', Str ''x'')]"
  by (simp add: http_def stage_def alloc_def require_apikey_def sign_inputs_def send_def
      classify_def Let_def deref_def store_def get_prop_def truthy_def opt_val_def
      own_props_def Object_assign_def set_prop_def delete_prop_def url_join_def
      method_name_def sent_headers_def sent_params_def has_prop_def)

text \<open>
  C4, amended. What a dispatch adds follows the endpoint's tier, and on the tiers \<open>NONE\<close>
  and \<open>API_KEY\<close> it adds no parameter. For \<open>NONE\<close>, whatever credentials the client has,
  and for \<open>API_KEY\<close> with a configured key, one request is sent, with the caller's
  parameters copied as they are: for \<^verbatim>\<open>GET\<close> the query object is the copy and has exactly
  the caller's fields (a \<^verbatim>\<open>timestamp\<close> or \<^verbatim>\<open>signature\<close> is there only if the caller's own
  mapping has one), otherwise the body is the serialisation of the copy. For \<open>NONE\<close> the
  request's \<^verbatim>\<open>X-MBX-APIKEY\<close> header is what the caller's own headers object has under that
  name (nothing when it has none); for \<open>API_KEY\<close> it is the configured key. The call is
  well formed and \<^verbatim>\<open>headers\<close>, of type \<^verbatim>\<open>Models.Headers\<close>, is an object when given.
\<close>

theorem authentication_material_by_tier:
  assumes wf: "well_formed_call h optionsArg"
    and tier: "security endpoint \<noteq> SIGNED"
    and key: "security endpoint = API_KEY \<Longrightarrow>
                apikey (options client) = Some k \<and> k \<noteq> []
                \<and> object_or_falsy (caller_value h optionsArg ''headers'')"
  shows "\<exists>c. snd (snd (http transport now client endpoint optionsArg h)) = [c]
     \<and> get_prop (sent_headers c) ''X-MBX-APIKEY'' =
         (if security endpoint = API_KEY then Str k
          else get_prop (caller_headers h optionsArg) ''X-MBX-APIKEY'')
     \<and> (method_of endpoint = GET \<longrightarrow>
          sent_params c = Object_assign [] (caller_parameters endpoint h optionsArg)
          \<and> (\<forall>f. has_prop (sent_params c) f
                   = has_prop (caller_parameters endpoint h optionsArg) f))
     \<and> (method_of endpoint \<noteq> GET \<longrightarrow>
          sent_data c =
            Str (qstringify (Object_assign [] (caller_parameters endpoint h optionsArg))))"
proof -
  have k1: "security endpoint \<noteq> NONE \<Longrightarrow> object_or_falsy (caller_value h optionsArg ''headers'')"
    and k2: "security endpoint \<noteq> NONE \<Longrightarrow> apikey (options client) = Some k \<and> k \<noteq> []"
    using tier key by (cases "security endpoint"; simp)+
  have k3: "security endpoint = SIGNED \<Longrightarrow> apisecret (options client) = Some [] \<and> [] \<noteq> []"
    using tier by simp
  obtain hf opts i where
    run: "http transport now client endpoint optionsArg h =
       ((case transport (axios client) hf opts of
           Inl e \<Rightarrow> Inl (HttpError (error_toString e) (thrown_stack e))
         | Inr r \<Rightarrow> classify r), hf, [(hf, opts)])"
    and i: "deref hf i = Object_assign [] (caller_parameters endpoint h optionsArg)"
    and par: "method_of endpoint = GET \<longrightarrow> get_prop (deref hf opts) ''params'' = Ref i"
    and dat: "method_of endpoint \<noteq> GET \<longrightarrow> get_prop (deref hf opts) ''data'' =
                Str (qstringify (Object_assign [] (caller_parameters endpoint h optionsArg)))"
    and hdr: "get_prop (sent_headers (hf, opts)) ''X-MBX-APIKEY'' =
          (if security endpoint = NONE
           then get_prop (caller_headers h optionsArg) ''X-MBX-APIKEY'' else Str k)"
    using http_dispatch [where endpoint = endpoint and h = h and optionsArg = optionsArg
        and client = client and k = k and secret = "[]" and transport = transport and now = now,
        OF wf k1 k2 k3] tier
    by auto
  have "get_prop (sent_headers (hf, opts)) ''X-MBX-APIKEY'' =
         (if security endpoint = API_KEY then Str k
          else get_prop (caller_headers h optionsArg) ''X-MBX-APIKEY'')"
    using hdr tier by (cases "security endpoint") simp_all
  moreover have "method_of endpoint = GET \<longrightarrow>
      sent_params (hf, opts) = Object_assign [] (caller_parameters endpoint h optionsArg)"
    using par i by (simp add: sent_params_def)
  moreover have "method_of endpoint \<noteq> GET \<longrightarrow> sent_data (hf, opts) =
            Str (qstringify (Object_assign [] (caller_parameters endpoint h optionsArg)))"
    using dat by (simp add: sent_data_def)
  ultimately show ?thesis
    by (simp add: run has_prop_copy)
qed

theorem authentication_material_by_tier_witness:
  "\<exists>c. snd (snd (http (\<lambda>config hp a. Inr \<lparr>status = 200, statusText = JNull, data = JObj []\<rparr>) 0
                     \<lparr>options = \<lparr>apikey = Some ''an-api-key'', apisecret = Some ''a-secret'',
                                  axiosOptions = None\<rparr>, axios = AXIOS_DEFAULTS\<rparr>
                     \<lparr>url = ''/security/API-KEY'', method' = None, security = API_KEY\<rparr>
                     (Some 0)
                     [[(''params'', Ref (Suc 0))], [(''symbol'', Str ''LTCBTC'')]])) = [c]
     \<and> get_prop (sent_headers c) ''X-MBX-APIKEY'' = Str ''an-api-key''
     \<and> sent_params c = [(''symbol'', Str ''LTCBTC'')]
     \<and> \<not> has_prop (sent_params c) ''timestamp'' \<and> \<not> has_prop (sent_params c) ''signature''"
proof -
  let ?h = "[[(''params'', Ref (Suc 0))], [(''symbol'', Str ''LTCBTC'')]]"
  let ?ep = "\<lparr>url = ''/security/API-KEY'', method' = None, security = API_KEY\<rparr>"
  have wf: "well_formed_call ?h (Some 0)"
    by (simp add: well_formed_call_def caller_value_def deref_def get_prop_def allocated_def)
  have cp: "caller_parameters ?ep ?h (Some 0) = [(''symbol'', Str ''LTCBTC'')]"
    by (simp add: caller_parameters_def caller_value_def method_of_def deref_def get_prop_def
        own_props_def)
  have hv: "object_or_falsy (caller_value ?h (Some 0) ''headers'')"
    by (simp add: caller_value_def deref_def get_prop_def object_or_falsy_def truthy_def)
  have gt: "method_of ?ep = GET"
    by (simp add: method_of_def)
  note inst = authentication_material_by_tier
      [where h = ?h and optionsArg = "Some 0" and endpoint = ?ep
         and client = "\<lparr>options = \<lparr>apikey = Some ''an-api-key'', apisecret = Some ''a-secret'',
                        axiosOptions = None\<rparr>, axios = AXIOS_DEFAULTS\<rparr>"
         and k = "''an-api-key''"
         and transport = "\<lambda>config hp a. Inr \<lparr>status = 200, statusText = JNull, data = JObj []\<rparr>"
         and now = 0, OF wf]
  from inst obtain c where
    c: "snd (snd (http (\<lambda>config hp a. Inr \<lparr>status = 200, statusText = JNull, data = JObj []\<rparr>) 0
                     \<lparr>options = \<lparr>apikey = Some ''an-api-key'', apisecret = Some ''a-secret'',
                                  axiosOptions = None\<rparr>, axios = AXIOS_DEFAULTS\<rparr>
                     ?ep (Some 0) ?h)) = [c]"
      "get_prop (sent_headers c) ''X-MBX-APIKEY'' = Str ''an-api-key''"
      "sent_params c = [(''symbol'', Str ''LTCBTC'')]"
    by (auto simp: hv cp gt Object_assign_def set_prop_def)
  show ?thesis
    by (rule exI [of _ c]) (simp add: c has_prop_def)
qed

text \<open>
  C10. An empty string configured as \<^verbatim>\<open>apikey\<close> (for a tier other than \<open>NONE\<close>) or as
  \<^verbatim>\<open>apisecret\<close> (for \<open>SIGNED\<close>) gives the very dispatch an absent one gives: the same
  outcome, the same store, no transport call. With the empty key the outcome is the
  \<open>MissingCredentialsError\<close> naming \<^verbatim>\<open>apikey\<close>; with the empty secret it is the
  \<open>MissingCredentialsError\<close> naming \<^verbatim>\<open>apisecret\<close>, or \<^verbatim>\<open>apikey\<close> when the key is missing
  too (\<^verbatim>\<open>headers\<close> being an object when given).
\<close>

theorem empty_credential_is_absent:
  "(security endpoint \<noteq> NONE \<longrightarrow>
      http transport now (client\<lparr>options := (options client)\<lparr>apikey := Some []\<rparr>\<rparr>)
           endpoint optionsArg h
        = http transport now (client\<lparr>options := (options client)\<lparr>apikey := None\<rparr>\<rparr>)
           endpoint optionsArg h
      \<and> fst (http transport now (client\<lparr>options := (options client)\<lparr>apikey := Some []\<rparr>\<rparr>)
                endpoint optionsArg h)
          = Inl (MissingCredentialsError (missing_message endpoint ''apikey''))
      \<and> snd (snd (http transport now
                      (client\<lparr>options := (options client)\<lparr>apikey := Some []\<rparr>\<rparr>)
                      endpoint optionsArg h)) = [])
   \<and> (security endpoint = SIGNED \<longrightarrow>
      http transport now (client\<lparr>options := (options client)\<lparr>apisecret := Some []\<rparr>\<rparr>)
           endpoint optionsArg h
        = http transport now (client\<lparr>options := (options client)\<lparr>apisecret := None\<rparr>\<rparr>)
           endpoint optionsArg h
      \<and> snd (snd (http transport now
                      (client\<lparr>options := (options client)\<lparr>apisecret := Some []\<rparr>\<rparr>)
                      endpoint optionsArg h)) = [])
   \<and> (security endpoint = SIGNED
        \<and> object_or_falsy (caller_value h optionsArg ''headers'') \<longrightarrow>
      fst (http transport now (client\<lparr>options := (options client)\<lparr>apisecret := Some []\<rparr>\<rparr>)
             endpoint optionsArg h)
        = Inl (MissingCredentialsError
                 (missing_message endpoint
                    (if truthy (opt_val (apikey (options client))) then ''apisecret''
                     else ''apikey''))))"
proof (intro conjI impI)
  let ?ke = "client\<lparr>options := (options client)\<lparr>apikey := Some []\<rparr>\<rparr>"
  let ?kn = "client\<lparr>options := (options client)\<lparr>apikey := None\<rparr>\<rparr>"
  let ?se = "client\<lparr>options := (options client)\<lparr>apisecret := Some []\<rparr>\<rparr>"
  let ?sn = "client\<lparr>options := (options client)\<lparr>apisecret := None\<rparr>\<rparr>"
  have ke: "\<not> truthy (opt_val (apikey (options ?ke)))"
    and kn: "\<not> truthy (opt_val (apikey (options ?kn)))"
    and se: "\<not> truthy (opt_val (apisecret (options ?se)))"
    and sn: "\<not> truthy (opt_val (apisecret (options ?sn)))"
    by (simp_all add: opt_val_def truthy_def)
  {
    assume t: "security endpoint \<noteq> NONE"
    show "http transport now ?ke endpoint optionsArg h = http transport now ?kn endpoint optionsArg h"
      by (simp only: http_missing_apikey [OF t ke] http_missing_apikey [OF t kn])
    show "fst (http transport now ?ke endpoint optionsArg h)
          = Inl (MissingCredentialsError (missing_message endpoint ''apikey''))"
      by (simp only: http_missing_apikey [OF t ke] fst_conv)
    show "snd (snd (http transport now ?ke endpoint optionsArg h)) = []"
      by (simp only: http_missing_apikey [OF t ke] snd_conv)
  }
  obtain st h1 where stg: "stage endpoint optionsArg h = (st, h1)"
    by (cases "stage endpoint optionsArg h")
  have same_key: "require_apikey ?se endpoint st h1 = require_apikey ?sn endpoint st h1"
    by (simp add: require_apikey_def cong: val.case_cong)
  obtain r2 h2 where rk: "require_apikey ?se endpoint st h1 = (r2, h2)"
    by (cases "require_apikey ?se endpoint st h1")
  {
    assume t: "security endpoint = SIGNED"
    have e: "http transport now ?se endpoint optionsArg h =
          (case r2 of Some e \<Rightarrow> (Inl e, h2, [])
           | None \<Rightarrow> (Inl (MissingCredentialsError (missing_message endpoint ''apisecret'')), h2, []))"
      using rk by (simp add: http_def stg sign_inputs_missing [OF t se] split: option.splits)
    have n: "http transport now ?sn endpoint optionsArg h =
          (case r2 of Some e \<Rightarrow> (Inl e, h2, [])
           | None \<Rightarrow> (Inl (MissingCredentialsError (missing_message endpoint ''apisecret'')), h2, []))"
      using rk same_key
      by (simp add: http_def stg sign_inputs_missing [OF t sn] split: option.splits)
    show "http transport now ?se endpoint optionsArg h = http transport now ?sn endpoint optionsArg h"
      by (simp only: e n)
    show "snd (snd (http transport now ?se endpoint optionsArg h)) = []"
      by (simp add: e split: option.splits)
  }
  {
    assume "security endpoint = SIGNED \<and> object_or_falsy (caller_value h optionsArg ''headers'')"
    then have t: "security endpoint = SIGNED"
      and hv: "object_or_falsy (caller_value h optionsArg ''headers'')"
      by simp_all
    obtain a where a: "sg_headers st = Ref a"
      using stage_headers_object [OF stg hv] by blast
    have e: "http transport now ?se endpoint optionsArg h =
          (case r2 of Some e \<Rightarrow> (Inl e, h2, [])
           | None \<Rightarrow> (Inl (MissingCredentialsError (missing_message endpoint ''apisecret'')), h2, []))"
      using rk by (simp add: http_def stg sign_inputs_missing [OF t se] split: option.splits)
    have "r2 = (if truthy (opt_val (apikey (options client))) then None
                else Some (MissingCredentialsError (missing_message endpoint ''apikey'')))"
      using rk t a by (auto simp: require_apikey_def split: if_splits)
    then show "fst (http transport now ?se endpoint optionsArg h)
        = Inl (MissingCredentialsError
                 (missing_message endpoint
                    (if truthy (opt_val (apikey (options client))) then ''apisecret''
                     else ''apikey'')))"
      by (simp add: e)
  }
qed

theorem empty_credential_is_absent_witness:
  "http (\<lambda>config hp a. Inr \<lparr>status = 200, statusText = JNull, data = JObj []\<rparr>) 0
        \<lparr>options = \<lparr>apikey = Some [], apisecret = Some ''s'', axiosOptions = None\<rparr>,
          axios = AXIOS_DEFAULTS\<rparr>
        \<lparr>url = ''/security/API-KEY'', method' = None, security = API_KEY\<rparr> None []
     = http (\<lambda>config hp a. Inr \<lparr>status = 200, statusText = JNull, data = JObj []\<rparr>) 0
        \<lparr>options = \<lparr>apikey = None, apisecret = Some ''s'', axiosOptions = None\<rparr>,
          axios = AXIOS_DEFAULTS\<rparr>
        \<lparr>url = ''/security/API-KEY'', method' = None, security = API_KEY\<rparr> None []
   \<and> fst (http (\<lambda>config hp a. Inr \<lparr>status = 200, statusText = JNull, data = JObj []\<rparr>) 0
        \<lparr>options = \<lparr>apikey = Some [], apisecret = Some ''s'', axiosOptions = None\<rparr>,
          axios = AXIOS_DEFAULTS\<rparr>
        \<lparr>url = ''/security/API-KEY'', method' = None, security = API_KEY\<rparr> None [])
     = Inl (MissingCredentialsError ''API-KEY HTTP endpoints require opts.apikey to be provided'')"
proof -
  let ?ep = "\<lparr>url = ''/security/API-KEY'', method' = None, security = API_KEY\<rparr>"
  let ?tr = "\<lambda>config hp a. Inr \<lparr>status = 200, statusText = JNull, data = JObj []\<rparr>"
  let ?empty = "\<lparr>options = \<lparr>apikey = Some [], apisecret = Some ''s'', axiosOptions = None\<rparr>,
          axios = AXIOS_DEFAULTS\<rparr>"
  let ?absent = "\<lparr>options = \<lparr>apikey = None, apisecret = Some ''s'', axiosOptions = None\<rparr>,
          axios = AXIOS_DEFAULTS\<rparr>"
  have tier: "security ?ep \<noteq> NONE"
    by simp
  note w = empty_credential_is_absent
      [of ?ep ?tr 0 ?absent None "[]", THEN conjunct1, rule_format, OF tier, simplified]
  have same: "http ?tr 0 ?empty ?ep None [] = http ?tr 0 ?absent ?ep None []"
    by (rule w [THEN conjunct1])
  have fails: "fst (http ?tr 0 ?empty ?ep None []) =
      Inl (MissingCredentialsError (missing_message ?ep ''apikey''))"
    by (rule w [THEN conjunct2, THEN conjunct1])
  show ?thesis
    by (intro conjI) (rule same, simp add: fails missing_message_def security_name_def)
qed

text \<open>
  C5. The claim: after a dispatch the caller's objects, the options object and its
  \<^verbatim>\<open>params\<close> or \<^verbatim>\<open>data\<close> mapping, are unchanged. The options object is not: \<^verbatim>\<open>http\<close>
  deletes its \<^verbatim>\<open>data\<close> and \<^verbatim>\<open>params\<close> and assigns \<^verbatim>\<open>url\<close>, \<^verbatim>\<open>headers\<close>,
  \<^verbatim>\<open>method\<close>, \<^verbatim>\<open>validateStatus\<close> and the staged parameters to it. Here a caller's options
  \<^verbatim>\<open>{params: {symbol: 'BTC'}}\<close> (the object at address 1) are, after a call of the order
  book endpoint, the request options.
\<close>

theorem options_object_is_modified:
  "deref (fst (snd (http (\<lambda>config hp a. Inr \<lparr>status = 200, statusText = JNull, data = JObj []\<rparr>) 0
                     \<lparr>options = default_options, axios = AXIOS_DEFAULTS\<rparr> ORDERBOOK
                     (Some (Suc 0))
                     [[(''symbol'', Str ''BTC'')], [(''params'', Ref 0)]]))) (Suc 0)
     = [(''url'', Str ''https://api.binance.com/api/v1/depth''), (''headers'', Ref 2),
        (''method'', Str ''GET''), (''validateStatus'', Closure ''() => { return true }''),
        (''params'', Ref 3)]
   \<and> deref (fst (snd (http (\<lambda>config hp a. Inr \<lparr>status = 200, statusText = JNull, data = JObj []\<rparr>) 0
                     \<lparr>options = default_options, axios = AXIOS_DEFAULTS\<rparr> ORDERBOOK
                     (Some (Suc 0))
                     [[(''symbol'', Str ''BTC'')], [(''params'', Ref 0)]]))) (Suc 0)
     \<noteq> deref [[(''symbol'', Str ''BTC'')], [(''params'', Ref 0)]] (Suc 0)"
  by (simp add: http_def stage_def alloc_def require_apikey_def sign_inputs_def send_def
      classify_def Let_def ORDERBOOK_def deref_def store_def get_prop_def truthy_def
      own_props_def Object_assign_def set_prop_def delete_prop_def url_join_def
      method_name_def)

text \<open>
  C5, amended. The caller's parameter mapping is unchanged after a dispatch, whatever its
  outcome: when the options' \<^verbatim>\<open>params\<close> or \<^verbatim>\<open>data\<close> is an object other than the options
  object and the headers object, that object is after the call what it was before. Staging
  copies it: for \<^verbatim>\<open>GET\<close> the mapping a request carries is an object allocated by the
  dispatch, not the caller's, and the timestamp and the signature are written to that
  copy. The options object itself is written to.
\<close>

theorem caller_parameters_object_unchanged:
  assumes wf: "well_formed_call h (Some p)"
    and ref: "caller_value h (Some p) ''params'' = Ref q \<or> caller_value h (Some p) ''data'' = Ref q"
    and distinct: "q \<noteq> p" "caller_value h (Some p) ''headers'' \<noteq> Ref q"
  shows "deref (fst (snd (http transport now client endpoint (Some p) h))) q = deref h q
     \<and> (\<forall>c \<in> set (snd (snd (http transport now client endpoint (Some p) h))).
           method_of endpoint = GET \<longrightarrow>
             (\<exists>i. get_prop (deref (fst c) (snd c)) ''params'' = Ref i \<and> length h \<le> i \<and> i \<noteq> q))"
proof -
  have q: "q < length h"
    using wf ref by (auto simp: well_formed_call_def allocated_def)
  have "deref (fst (snd (http transport now client endpoint (Some p) h))) q = deref h q"
    using http_frame [OF wf q _ distinct(2)] distinct(1) by simp
  moreover have "\<exists>i. get_prop (deref (fst c) (snd c)) ''params'' = Ref i \<and> length h \<le> i \<and> i \<noteq> q"
    if "c \<in> set (snd (snd (http transport now client endpoint (Some p) h)))"
      and "method_of endpoint = GET" for c
    using http_working_mapping_fresh [OF wf that] q by auto
  ultimately show ?thesis by blast
qed

theorem caller_parameters_object_unchanged_witness:
  "deref (fst (snd (http (\<lambda>config hp a. Inr \<lparr>status = 200, statusText = JNull, data = JObj []\<rparr>) 5
                     \<lparr>options = \<lparr>apikey = Some ''k'', apisecret = Some ''s'',
                                  axiosOptions = None\<rparr>, axios = AXIOS_DEFAULTS\<rparr> ALLORDERS
                     (Some (Suc 0))
                     [[(''symbol'', Str ''LTCBTC'')], [(''params'', Ref 0)]]))) 0
     = [(''symbol'', Str ''LTCBTC'')]"
proof -
  let ?h = "[[(''symbol'', Str ''LTCBTC'')], [(''params'', Ref 0)]]"
  have wf: "well_formed_call ?h (Some (Suc 0))"
    by (simp add: well_formed_call_def caller_value_def deref_def get_prop_def allocated_def)
  have ref: "caller_value ?h (Some (Suc 0)) ''params'' = Ref 0
             \<or> caller_value ?h (Some (Suc 0)) ''data'' = Ref 0"
    by (simp add: caller_value_def deref_def get_prop_def)
  have hv: "caller_value ?h (Some (Suc 0)) ''headers'' \<noteq> Ref 0"
    by (simp add: caller_value_def deref_def get_prop_def)
  have "deref (fst (snd (http (\<lambda>config hp a. Inr \<lparr>status = 200, statusText = JNull, data = JObj []\<rparr>) 5
                     \<lparr>options = \<lparr>apikey = Some ''k'', apisecret = Some ''s'',
                                  axiosOptions = None\<rparr>, axios = AXIOS_DEFAULTS\<rparr> ALLORDERS
                     (Some (Suc 0)) ?h))) 0 = deref ?h 0"
    using caller_parameters_object_unchanged [OF wf ref _ hv] by simp
  then show ?thesis
    by (simp add: deref_def)
qed

text \<open>
  C1. The claim: on a signed dispatch the timestamp is put into the working mapping before
  signing, and the signature is computed over the exact serialised parameter string that
  is transmitted, no field being added after signing. \<^verbatim>\<open>http\<close> serialises the mapping
  once to sign it and, after \<^verbatim>\<open>inputs.signature = ...\<close>, once more to send it. When the
  caller's parameters already have a \<^verbatim>\<open>signature\<close> field, the assignment overwrites it in
  place: the string that was signed holds the caller's value, and the transmitted string
  is not the signed string with the signature field added. Here the caller's data is
  \<^verbatim>\<open>{signature: 'x', symbol: 'BTCETH'}\<close> on \<^verbatim>\<open>POST /v3/order\<close>.
\<close>

theorem stale_signature_field_is_signed:
  "sent_data (hd (snd (snd (http
       (\<lambda>config hp a. Inr \<lparr>status = 200, statusText = JNull, data = JObj []\<rparr>) 5
       \<lparr>options = \<lparr>apikey = Some ''k'', apisecret = Some ''s'', axiosOptions = None\<rparr>,
         axios = AXIOS_DEFAULTS\<rparr>
       ORDER (Some (Suc 0))
       [[(''signature'', Str ''x''), (''symbol'', Str ''BTCETH'')], [(''data'', Ref 0)]]))))
     = Str (''signature='' @ getHmac ''signature=x&symbol=BTCETH&timestamp=5'' ''s''
              @ ''&symbol=BTCETH&timestamp=5'')
   \<and> signed_string 5 [(''signature'', Str ''x''), (''symbol'', Str ''BTCETH'')]
       = ''signature=x&symbol=BTCETH&timestamp=5''
   \<and> sent_data (hd (snd (snd (http
       (\<lambda>config hp a. Inr \<lparr>status = 200, statusText = JNull, data = JObj []\<rparr>) 5
       \<lparr>options = \<lparr>apikey = Some ''k'', apisecret = Some ''s'', axiosOptions = None\<rparr>,
         axios = AXIOS_DEFAULTS\<rparr>
       ORDER (Some (Suc 0))
       [[(''signature'', Str ''x''), (''symbol'', Str ''BTCETH'')], [(''data'', Ref 0)]]))))
     \<noteq> Str (signed_string 5 [(''signature'', Str ''x''), (''symbol'', Str ''BTCETH'')]
              @ ''&signature=''
              @ getHmac (signed_string 5 [(''signature'', Str ''x''),
                                          (''symbol'', Str ''BTCETH'')]) ''s'')"
proof -
  have parts: "sent_data (hd (snd (snd (http
       (\<lambda>config hp a. Inr \<lparr>status = 200, statusText = JNull, data = JObj []\<rparr>) 5
       \<lparr>options = \<lparr>apikey = Some ''k'', apisecret = Some ''s'', axiosOptions = None\<rparr>,
         axios = AXIOS_DEFAULTS\<rparr>
       ORDER (Some (Suc 0))
       [[(''signature'', Str ''x''), (''symbol'', Str ''BTCETH'')], [(''data'', Ref 0)]]))))
     = Str (''signature='' @ getHmac ''signature=x&symbol=BTCETH&timestamp=5'' ''s''
              @ ''&symbol=BTCETH&timestamp=5'')
   \<and> signed_string 5 [(''signature'', Str ''x''), (''symbol'', Str ''BTCETH'')]
       = ''signature=x&symbol=BTCETH&timestamp=5''
   \<and> ''signature='' @ getHmac ''signature=x&symbol=BTCETH&timestamp=5'' ''s''
         @ ''&symbol=BTCETH&timestamp=5''
       \<noteq> ''signature=x&symbol=BTCETH&timestamp=5'' @ ''&signature=''
           @ getHmac ''signature=x&symbol=BTCETH&timestamp=5'' ''s''"
  proof (intro conjI)
  have sgn: "signed_string 5 [(''signature'', Str ''x''), (''symbol'', Str ''BTCETH'')]
       = ''signature=x&symbol=BTCETH&timestamp=5''"
    by (simp add: signed_string_def set_prop_def qstringify_Cons qstringify_single
        stringifyPrimitive_def plain_escapes)
  show "signed_string 5 [(''signature'', Str ''x''), (''symbol'', Str ''BTCETH'')]
       = ''signature=x&symbol=BTCETH&timestamp=5''"
    by (rule sgn)
  have body: "qstringify [(''signature'', Str (getHmac s ''s'')), (''symbol'', Str ''BTCETH''),
                          (''timestamp'', Num 5)]
       = ''signature='' @ getHmac s ''s'' @ ''&symbol=BTCETH&timestamp=5''" for s
    by (simp add: qstringify_Cons qstringify_single plain_escapes escape_getHmac
        stringifyPrimitive_def)
  show "sent_data (hd (snd (snd (http
       (\<lambda>config hp a. Inr \<lparr>status = 200, statusText = JNull, data = JObj []\<rparr>) 5
       \<lparr>options = \<lparr>apikey = Some ''k'', apisecret = Some ''s'', axiosOptions = None\<rparr>,
         axios = AXIOS_DEFAULTS\<rparr>
       ORDER (Some (Suc 0))
       [[(''signature'', Str ''x''), (''symbol'', Str ''BTCETH'')], [(''data'', Ref 0)]]))))
     = Str (''signature='' @ getHmac ''signature=x&symbol=BTCETH&timestamp=5'' ''s''
              @ ''&symbol=BTCETH&timestamp=5'')"
    by (simp add: http_def stage_def alloc_def require_apikey_def sign_inputs_def send_def
        classify_def Let_def ORDER_def deref_def store_def get_prop_def truthy_def opt_val_def
        own_props_def Object_assign_def set_prop_def delete_prop_def sent_data_def sgn body)
  show "''signature='' @ getHmac ''signature=x&symbol=BTCETH&timestamp=5'' ''s''
         @ ''&symbol=BTCETH&timestamp=5''
       \<noteq> ''signature=x&symbol=BTCETH&timestamp=5'' @ ''&signature=''
           @ getHmac ''signature=x&symbol=BTCETH&timestamp=5'' ''s''"
  proof
    assume "''signature='' @ getHmac ''signature=x&symbol=BTCETH&timestamp=5'' ''s''
         @ ''&symbol=BTCETH&timestamp=5''
       = ''signature=x&symbol=BTCETH&timestamp=5'' @ ''&signature=''
           @ getHmac ''signature=x&symbol=BTCETH&timestamp=5'' ''s''"
    then have "length (''signature='' @ getHmac ''signature=x&symbol=BTCETH&timestamp=5'' ''s''
         @ ''&symbol=BTCETH&timestamp=5'')
       = length (''signature=x&symbol=BTCETH&timestamp=5'' @ ''&signature=''
           @ getHmac ''signature=x&symbol=BTCETH&timestamp=5'' ''s'')"
      by (rule arg_cong)
    then show False
      by (simp add: length_getHmac)
  qed
qed
  then show ?thesis
    by simp
qed

text \<open>
  C1, amended. On a signed dispatch with both credentials, when the caller's parameters
  have no \<^verbatim>\<open>signature\<close> field of their own: the timestamp is in the working mapping when
  it is signed (the signed string is the serialisation of the caller's parameters with
  \<^verbatim>\<open>timestamp\<close> set to the clock's value), and what is transmitted is what was signed
  followed by the signature and nothing else: for a method other than \<^verbatim>\<open>GET\<close> the body is
  the signed string followed by \<^verbatim>\<open>&signature=\<close> and the digest of the signed string; for
  \<^verbatim>\<open>GET\<close> the query object handed to the transport is the signed pairs followed by the
  signature pair.
\<close>

theorem signed_string_is_the_transmitted_string:
  fixes now :: int
  assumes wf: "well_formed_call h optionsArg"
    and hv: "object_or_falsy (caller_value h optionsArg ''headers'')"
    and tier: "security endpoint = SIGNED"
    and key: "apikey (options client) = Some k" "k \<noteq> []"
    and sec: "apisecret (options client) = Some secret" "secret \<noteq> []"
    and nosig: "\<not> has_prop (caller_parameters endpoint h optionsArg) ''signature''"
  defines "C \<equiv> Object_assign [] (caller_parameters endpoint h optionsArg)"
  shows "\<exists>c. snd (snd (http transport now client endpoint optionsArg h)) = [c]
     \<and> signed_string now C = qstringify (set_prop C ''timestamp'' (Num now))
     \<and> get_prop (set_prop C ''timestamp'' (Num now)) ''timestamp'' = Num now
     \<and> (method_of endpoint = GET \<longrightarrow>
          sent_params c = set_prop C ''timestamp'' (Num now)
                            @ [(''signature'', Str (getHmac (signed_string now C) secret))])
     \<and> (method_of endpoint \<noteq> GET \<longrightarrow>
          sent_data c = Str (signed_string now C @ ''&signature=''
                               @ getHmac (signed_string now C) secret))"
proof -
  have nosigC: "\<not> has_prop C ''signature''"
    using nosig by (simp add: C_def has_prop_copy)
  note sm = signed_mapping [OF nosigC]
  have k1: "security endpoint \<noteq> NONE \<Longrightarrow> object_or_falsy (caller_value h optionsArg ''headers'')"
    and k2: "security endpoint \<noteq> NONE \<Longrightarrow> apikey (options client) = Some k \<and> k \<noteq> []"
    and k3: "security endpoint = SIGNED \<Longrightarrow> apisecret (options client) = Some secret \<and> secret \<noteq> []"
    using hv key sec by simp_all
  obtain hf opts i where
    run: "http transport now client endpoint optionsArg h =
       ((case transport (axios client) hf opts of
           Inl e \<Rightarrow> Inl (HttpError (error_toString e) (thrown_stack e))
         | Inr r \<Rightarrow> classify r), hf, [(hf, opts)])"
    and i: "deref hf i = set_prop (set_prop C ''timestamp'' (Num now)) ''signature''
                           (Str (getHmac (signed_string now C) secret))"
    and par: "method_of endpoint = GET \<longrightarrow> get_prop (deref hf opts) ''params'' = Ref i"
    and dat: "method_of endpoint \<noteq> GET \<longrightarrow> get_prop (deref hf opts) ''data'' =
                Str (qstringify (set_prop (set_prop C ''timestamp'' (Num now)) ''signature''
                           (Str (getHmac (signed_string now C) secret))))"
    using http_dispatch [where endpoint = endpoint and h = h and optionsArg = optionsArg
        and client = client and k = k and secret = secret and transport = transport
        and now = now, OF wf k1 k2 k3] tier
    unfolding C_def by auto
  have "method_of endpoint = GET \<longrightarrow>
          sent_params (hf, opts) = set_prop C ''timestamp'' (Num now)
                            @ [(''signature'', Str (getHmac (signed_string now C) secret))]"
    using par i sm(1) by (simp add: sent_params_def)
  moreover have "method_of endpoint \<noteq> GET \<longrightarrow>
          sent_data (hf, opts) = Str (signed_string now C @ ''&signature=''
                               @ getHmac (signed_string now C) secret)"
    using dat sm(2) by (simp add: sent_data_def)
  ultimately show ?thesis
    using sm(6) by (simp add: run signed_string_def)
qed

theorem signed_string_is_the_transmitted_string_witness:
  "\<exists>c. snd (snd (http
       (\<lambda>config hp a. Inr \<lparr>status = 200, statusText = JNull, data = JObj []\<rparr>) 5
       \<lparr>options = \<lparr>apikey = Some ''k'', apisecret = Some ''s'', axiosOptions = None\<rparr>,
         axios = AXIOS_DEFAULTS\<rparr>
       ORDER (Some (Suc 0))
       [[(''symbol'', Str ''BTCETH'')], [(''data'', Ref 0)]])) = [c]
     \<and> sent_data c = Str (''symbol=BTCETH&timestamp=5'' @ ''&signature=''
                           @ getHmac ''symbol=BTCETH&timestamp=5'' ''s'')"
proof -
  let ?h = "[[(''symbol'', Str ''BTCETH'')], [(''data'', Ref 0)]]"
  let ?tr = "\<lambda>config hp a. Inr \<lparr>status = 200, statusText = JNull, data = JObj []\<rparr>"
  let ?cl = "\<lparr>options = \<lparr>apikey = Some ''k'', apisecret = Some ''s'', axiosOptions = None\<rparr>,
         axios = AXIOS_DEFAULTS\<rparr>"
  have wf: "well_formed_call ?h (Some (Suc 0))"
    by (simp add: well_formed_call_def caller_value_def deref_def get_prop_def allocated_def)
  have hv: "object_or_falsy (caller_value ?h (Some (Suc 0)) ''headers'')"
    by (simp add: caller_value_def deref_def get_prop_def object_or_falsy_def truthy_def)
  have m: "method_of ORDER \<noteq> GET"
    by (simp add: method_of_def ORDER_def)
  have cp: "caller_parameters ORDER ?h (Some (Suc 0)) = [(''symbol'', Str ''BTCETH'')]"
    by (simp add: caller_parameters_def caller_value_def m deref_def get_prop_def own_props_def)
  have nosig: "\<not> has_prop (caller_parameters ORDER ?h (Some (Suc 0))) ''signature''"
    by (simp add: cp has_prop_def)
  have copy: "Object_assign [] [(''symbol'', Str ''BTCETH'')] = [(''symbol'', Str ''BTCETH'')]"
    by (simp add: Object_assign_def set_prop_def)
  have sgn: "signed_string 5 [(''symbol'', Str ''BTCETH'')] = ''symbol=BTCETH&timestamp=5''"
    by (simp add: signed_string_def set_prop_def qstringify_Cons qstringify_single
        stringifyPrimitive_def plain_escapes)
  note inst = signed_string_is_the_transmitted_string
      [where h = ?h and optionsArg = "Some (Suc 0)" and endpoint = ORDER and client = ?cl
         and k = "''k''" and secret = "''s''" and transport = ?tr and now = 5,
       OF wf hv _ _ _ _ _ nosig]
  have "\<exists>c. snd (snd (http ?tr 5 ?cl ORDER (Some (Suc 0)) ?h)) = [c]
      \<and> sent_data c = Str (signed_string 5 [(''symbol'', Str ''BTCETH'')] @ ''&signature=''
                           @ getHmac (signed_string 5 [(''symbol'', Str ''BTCETH'')]) ''s'')"
    using inst m by (auto simp: ORDER_def cp [unfolded ORDER_def] copy)
  then show ?thesis
    unfolding sgn .
qed

text \<open>
  C3. The claim: on a \<open>SIGNED\<close> endpoint a missing key, and then a missing secret, fail
  with \<open>MissingCredentialsError\<close> before the transport is called, and with both the
  transmitted parameters have \<^verbatim>\<open>timestamp\<close> and \<^verbatim>\<open>signature\<close>, the signature being the
  HMAC-SHA256 of the canonical transmitted parameters. The last part fails when the
  caller's parameters have a \<^verbatim>\<open>signature\<close> field: for \<^verbatim>\<open>GET /v3/allOrders\<close> with
  \<^verbatim>\<open>{signature: 'x'}\<close> the transmitted signature is the digest of
  \<^verbatim>\<open>signature=x&timestamp=5\<close>, while the transmitted parameters other than the signature
  serialise to \<^verbatim>\<open>timestamp=5\<close>, whose digest is another.
\<close>

theorem stale_signature_does_not_verify:
  "sent_params (hd (snd (snd (http
       (\<lambda>config hp a. Inr \<lparr>status = 200, statusText = JNull, data = JObj []\<rparr>) 5
       \<lparr>options = \<lparr>apikey = Some ''k'', apisecret = Some ''s'', axiosOptions = None\<rparr>,
         axios = AXIOS_DEFAULTS\<rparr>
       ALLORDERS (Some (Suc 0))
       [[(''signature'', Str ''x'')], [(''params'', Ref 0)]]))))
     = [(''signature'',
         Str ''7faba0ec552904c39c24201dbc154517368ba4b5e1e83ef689fe8c4bff4d7050''),
        (''timestamp'', Num 5)]
   \<and> \<not> signature_verifies ''s''
        (sent_params (hd (snd (snd (http
           (\<lambda>config hp a. Inr \<lparr>status = 200, statusText = JNull, data = JObj []\<rparr>) 5
           \<lparr>options = \<lparr>apikey = Some ''k'', apisecret = Some ''s'', axiosOptions = None\<rparr>,
             axios = AXIOS_DEFAULTS\<rparr>
           ALLORDERS (Some (Suc 0))
           [[(''signature'', Str ''x'')], [(''params'', Ref 0)]])))))"
proof -
  have sgn: "signed_string 5 [(''signature'', Str ''x'')] = ''signature=x&timestamp=5''"
    by (simp add: signed_string_def set_prop_def qstringify_Cons qstringify_single
        stringifyPrimitive_def plain_escapes)
  have sent: "sent_params (hd (snd (snd (http
       (\<lambda>config hp a. Inr \<lparr>status = 200, statusText = JNull, data = JObj []\<rparr>) 5
       \<lparr>options = \<lparr>apikey = Some ''k'', apisecret = Some ''s'', axiosOptions = None\<rparr>,
         axios = AXIOS_DEFAULTS\<rparr>
       ALLORDERS (Some (Suc 0))
       [[(''signature'', Str ''x'')], [(''params'', Ref 0)]]))))
     = [(''signature'',
         Str ''7faba0ec552904c39c24201dbc154517368ba4b5e1e83ef689fe8c4bff4d7050''),
        (''timestamp'', Num 5)]"
    by (simp add: http_def stage_def alloc_def require_apikey_def sign_inputs_def send_def
        classify_def Let_def ALLORDERS_def deref_def store_def get_prop_def truthy_def
        opt_val_def own_props_def Object_assign_def set_prop_def delete_prop_def
        sent_params_def sgn digest_of_signed_string)
  have rest: "qstringify (delete_prop
        [(''signature'',
          Str ''7faba0ec552904c39c24201dbc154517368ba4b5e1e83ef689fe8c4bff4d7050''),
         (''timestamp'', Num 5)] ''signature'') = ''timestamp=5''"
    by (simp add: delete_prop_def qstringify_single stringifyPrimitive_def plain_escapes)
  show ?thesis
    unfolding sent
    by (simp add: signature_verifies_def rest digest_of_transmitted_string get_prop_def)
qed

text \<open>
  C3, amended. On a \<open>SIGNED\<close> endpoint: without a key the dispatch fails with the
  \<open>MissingCredentialsError\<close> naming \<^verbatim>\<open>apikey\<close> and calls no transport; with a key and
  without a secret it fails with the one naming \<^verbatim>\<open>apisecret\<close> and calls no transport;
  with both, and the caller's parameters having no \<^verbatim>\<open>signature\<close> field of their own, one
  request is sent, with the key as its API-key header and with parameters that have
  \<^verbatim>\<open>timestamp\<close> (the clock's value) and \<^verbatim>\<open>signature\<close>, the signature being the HMAC-SHA256
  under the secret of the serialisation of the other transmitted parameters.
\<close>

theorem signed_endpoint_credentials:
  fixes now :: int
  assumes tier: "security endpoint = SIGNED"
  shows "(\<not> truthy (opt_val (apikey (options client))) \<longrightarrow>
            fst (http transport now client endpoint optionsArg h)
              = Inl (MissingCredentialsError (missing_message endpoint ''apikey''))
            \<and> snd (snd (http transport now client endpoint optionsArg h)) = [])
     \<and> (truthy (opt_val (apikey (options client)))
          \<and> \<not> truthy (opt_val (apisecret (options client)))
          \<and> object_or_falsy (caller_value h optionsArg ''headers'') \<longrightarrow>
            fst (http transport now client endpoint optionsArg h)
              = Inl (MissingCredentialsError (missing_message endpoint ''apisecret''))
            \<and> snd (snd (http transport now client endpoint optionsArg h)) = [])
     \<and> (apikey (options client) = Some k \<and> k \<noteq> []
          \<and> apisecret (options client) = Some secret \<and> secret \<noteq> []
          \<and> well_formed_call h optionsArg
          \<and> object_or_falsy (caller_value h optionsArg ''headers'')
          \<and> \<not> has_prop (caller_parameters endpoint h optionsArg) ''signature'' \<longrightarrow>
            (\<exists>c W. snd (snd (http transport now client endpoint optionsArg h)) = [c]
               \<and> (method_of endpoint = GET \<longrightarrow> sent_params c = W)
               \<and> (method_of endpoint \<noteq> GET \<longrightarrow> sent_data c = Str (qstringify W))
               \<and> get_prop W ''timestamp'' = Num now
               \<and> has_prop W ''timestamp'' \<and> has_prop W ''signature''
               \<and> signature_verifies secret W
               \<and> get_prop (sent_headers c) ''X-MBX-APIKEY'' = Str k))"
proof (intro conjI impI)
  have t: "security endpoint \<noteq> NONE"
    using tier by simp
  {
    assume m: "\<not> truthy (opt_val (apikey (options client)))"
    show "fst (http transport now client endpoint optionsArg h)
              = Inl (MissingCredentialsError (missing_message endpoint ''apikey''))"
      and "snd (snd (http transport now client endpoint optionsArg h)) = []"
      by (simp_all add: http_missing_apikey [OF t m])
  }
  {
    assume a: "truthy (opt_val (apikey (options client)))
          \<and> \<not> truthy (opt_val (apisecret (options client)))
          \<and> object_or_falsy (caller_value h optionsArg ''headers'')"
    obtain st h1 where stg: "stage endpoint optionsArg h = (st, h1)"
      by (cases "stage endpoint optionsArg h")
    obtain b where b: "sg_headers st = Ref b"
      using stage_headers_object [OF stg] a by blast
    obtain h2 where rk: "require_apikey client endpoint st h1 = (None, h2)"
      using a b t by (simp add: require_apikey_def)
    have run: "http transport now client endpoint optionsArg h =
        (Inl (MissingCredentialsError (missing_message endpoint ''apisecret'')), h2, [])"
      using a by (simp add: http_def stg rk sign_inputs_missing [OF tier])
    show "fst (http transport now client endpoint optionsArg h)
              = Inl (MissingCredentialsError (missing_message endpoint ''apisecret''))"
      and "snd (snd (http transport now client endpoint optionsArg h)) = []"
      by (simp_all add: run)
  }
  {
    assume a: "apikey (options client) = Some k \<and> k \<noteq> []
          \<and> apisecret (options client) = Some secret \<and> secret \<noteq> []
          \<and> well_formed_call h optionsArg
          \<and> object_or_falsy (caller_value h optionsArg ''headers'')
          \<and> \<not> has_prop (caller_parameters endpoint h optionsArg) ''signature''"
    define C where "C = Object_assign [] (caller_parameters endpoint h optionsArg)"
    define W where "W = set_prop (set_prop C ''timestamp'' (Num now)) ''signature''
                           (Str (getHmac (signed_string now C) secret))"
    have nosigC: "\<not> has_prop C ''signature''"
      using a by (simp add: C_def has_prop_copy)
    note sm = signed_mapping [OF nosigC]
    have wf: "well_formed_call h optionsArg"
      and k1: "security endpoint \<noteq> NONE \<Longrightarrow> object_or_falsy (caller_value h optionsArg ''headers'')"
      and k2: "security endpoint \<noteq> NONE \<Longrightarrow> apikey (options client) = Some k \<and> k \<noteq> []"
      and k3: "security endpoint = SIGNED \<Longrightarrow> apisecret (options client) = Some secret \<and> secret \<noteq> []"
      using a by simp_all
    obtain hf opts i where
      run: "http transport now client endpoint optionsArg h =
         ((case transport (axios client) hf opts of
             Inl e \<Rightarrow> Inl (HttpError (error_toString e) (thrown_stack e))
           | Inr r \<Rightarrow> classify r), hf, [(hf, opts)])"
      and i: "deref hf i = W"
      and par: "method_of endpoint = GET \<longrightarrow> get_prop (deref hf opts) ''params'' = Ref i"
      and dat: "method_of endpoint \<noteq> GET \<longrightarrow> get_prop (deref hf opts) ''data'' = Str (qstringify W)"
      and hdr: "get_prop (sent_headers (hf, opts)) ''X-MBX-APIKEY'' = Str k"
      using http_dispatch [where endpoint = endpoint and h = h and optionsArg = optionsArg
          and client = client and k = k and secret = secret and transport = transport
          and now = now, OF wf k1 k2 k3] tier
      unfolding C_def W_def by auto
    have "snd (snd (http transport now client endpoint optionsArg h)) = [(hf, opts)]"
      by (simp add: run)
    moreover have "method_of endpoint = GET \<longrightarrow> sent_params (hf, opts) = W"
      using par i by (simp add: sent_params_def)
    moreover have "method_of endpoint \<noteq> GET \<longrightarrow> sent_data (hf, opts) = Str (qstringify W)"
      using dat by (simp add: sent_data_def)
    moreover have "get_prop W ''timestamp'' = Num now"
      unfolding W_def by (rule sm(5))
    moreover have "has_prop W ''timestamp''" "has_prop W ''signature''"
      by (simp_all add: W_def has_prop_set_prop)
    moreover have "signature_verifies secret W"
      unfolding W_def by (rule sm(7))
    ultimately show "\<exists>c W. snd (snd (http transport now client endpoint optionsArg h)) = [c]
               \<and> (method_of endpoint = GET \<longrightarrow> sent_params c = W)
               \<and> (method_of endpoint \<noteq> GET \<longrightarrow> sent_data c = Str (qstringify W))
               \<and> get_prop W ''timestamp'' = Num now
               \<and> has_prop W ''timestamp'' \<and> has_prop W ''signature''
               \<and> signature_verifies secret W
               \<and> get_prop (sent_headers c) ''X-MBX-APIKEY'' = Str k"
      using hdr by blast
  }
qed

theorem signed_endpoint_credentials_witness:
  "fst (http (\<lambda>config hp a. Inr \<lparr>status = 200, statusText = JNull, data = JObj []\<rparr>) 5
          \<lparr>options = \<lparr>apikey = None, apisecret = Some ''s'', axiosOptions = None\<rparr>,
            axios = AXIOS_DEFAULTS\<rparr> ALLORDERS None [])
     = Inl (MissingCredentialsError ''SIGNED HTTP endpoints require opts.apikey to be provided'')
   \<and> fst (http (\<lambda>config hp a. Inr \<lparr>status = 200, statusText = JNull, data = JObj []\<rparr>) 5
          \<lparr>options = \<lparr>apikey = Some ''k'', apisecret = None, axiosOptions = None\<rparr>,
            axios = AXIOS_DEFAULTS\<rparr> ALLORDERS None [])
     = Inl (MissingCredentialsError
              ''SIGNED HTTP endpoints require opts.apisecret to be provided'')
   \<and> (\<exists>c W. snd (snd (http
       (\<lambda>config hp a. Inr \<lparr>status = 200, statusText = JNull, data = JObj []\<rparr>) 5
       \<lparr>options = \<lparr>apikey = Some ''k'', apisecret = Some ''s'', axiosOptions = None\<rparr>,
         axios = AXIOS_DEFAULTS\<rparr>
       ALLORDERS (Some (Suc 0))
       [[(''symbol'', Str ''LTCBTC'')], [(''params'', Ref 0)]])) = [c]
     \<and> sent_params c = W
     \<and> get_prop W ''timestamp'' = Num 5
     \<and> has_prop W ''signature''
     \<and> signature_verifies ''s'' W
     \<and> get_prop (sent_headers c) ''X-MBX-APIKEY'' = Str ''k'')"
proof -
  let ?h = "[[(''symbol'', Str ''LTCBTC'')], [(''params'', Ref 0)]]"
  let ?tr = "\<lambda>config hp a. Inr \<lparr>status = 200, statusText = JNull, data = JObj []\<rparr>"
  let ?cl = "\<lparr>options = \<lparr>apikey = Some ''k'', apisecret = Some ''s'', axiosOptions = None\<rparr>,
         axios = AXIOS_DEFAULTS\<rparr>"
  have t: "security ALLORDERS = SIGNED"
    by (simp add: ALLORDERS_def)
  have m: "method_of ALLORDERS = GET"
    by (simp add: method_of_def ALLORDERS_def)
  have cp: "caller_parameters ALLORDERS ?h (Some (Suc 0)) = [(''symbol'', Str ''LTCBTC'')]"
    by (simp add: caller_parameters_def caller_value_def m deref_def get_prop_def own_props_def)
  have pre: "apikey (options ?cl) = Some ''k'' \<and> ''k'' \<noteq> []
          \<and> apisecret (options ?cl) = Some ''s'' \<and> ''s'' \<noteq> []
          \<and> well_formed_call ?h (Some (Suc 0))
          \<and> object_or_falsy (caller_value ?h (Some (Suc 0)) ''headers'')
          \<and> \<not> has_prop (caller_parameters ALLORDERS ?h (Some (Suc 0))) ''signature''"
    by (simp add: cp has_prop_def well_formed_call_def caller_value_def deref_def get_prop_def
        allocated_def object_or_falsy_def truthy_def)
  note inst = signed_endpoint_credentials
      [where endpoint = ALLORDERS and client = ?cl and h = ?h and optionsArg = "Some (Suc 0)"
         and k = "''k''" and secret = "''s''" and transport = ?tr and now = 5,
       OF t, THEN conjunct2, THEN conjunct2, rule_format, OF pre]
  then obtain c W where
    "snd (snd (http ?tr 5 ?cl ALLORDERS (Some (Suc 0)) ?h)) = [c]"
    "method_of ALLORDERS = GET \<longrightarrow> sent_params c = W"
    "get_prop W ''timestamp'' = Num 5" "has_prop W ''signature''"
    "signature_verifies ''s'' W" "get_prop (sent_headers c) ''X-MBX-APIKEY'' = Str ''k''"
    by blast
  then have both: "\<exists>c W. snd (snd (http ?tr 5 ?cl ALLORDERS (Some (Suc 0)) ?h)) = [c]
     \<and> sent_params c = W \<and> get_prop W ''timestamp'' = Num 5 \<and> has_prop W ''signature''
     \<and> signature_verifies ''s'' W \<and> get_prop (sent_headers c) ''X-MBX-APIKEY'' = Str ''k''"
    using m by blast
  let ?nokey = "\<lparr>options = \<lparr>apikey = None, apisecret = Some ''s'', axiosOptions = None\<rparr>,
            axios = AXIOS_DEFAULTS\<rparr>"
  let ?nosecret = "\<lparr>options = \<lparr>apikey = Some ''k'', apisecret = None, axiosOptions = None\<rparr>,
            axios = AXIOS_DEFAULTS\<rparr>"
  have "\<not> truthy (opt_val (apikey (options ?nokey)))"
    by (simp add: opt_val_def truthy_def)
  note nokey = signed_endpoint_credentials
      [where endpoint = ALLORDERS and client = ?nokey and h = "[]" and optionsArg = None
         and transport = ?tr and now = 5,
       OF t, THEN conjunct1, rule_format, OF this, THEN conjunct1]
  have "truthy (opt_val (apikey (options ?nosecret)))
          \<and> \<not> truthy (opt_val (apisecret (options ?nosecret)))
          \<and> object_or_falsy (caller_value [] None ''headers'')"
    by (simp add: opt_val_def truthy_def object_or_falsy_def caller_value_def)
  note nosecret = signed_endpoint_credentials
      [where endpoint = ALLORDERS and client = ?nosecret and h = "[]" and optionsArg = None
         and transport = ?tr and now = 5,
       OF t, THEN conjunct2, THEN conjunct1, rule_format, OF this, THEN conjunct1]
  have msg: "missing_message ALLORDERS ''apikey''
               = ''SIGNED HTTP endpoints require opts.apikey to be provided''"
    "missing_message ALLORDERS ''apisecret''
               = ''SIGNED HTTP endpoints require opts.apisecret to be provided''"
    by (simp_all add: missing_message_def security_name_def ALLORDERS_def)
  show ?thesis
    using nokey nosecret both unfolding msg by (intro conjI)
qed

end
